theory Spec2Isabelle
  imports Complex_Main "HOL-Library.AList"
begin

section \<open>The gift card service of server.js\<close>

text \<open>
  The service keeps two module variables, \<open>giftCards\<close> (an object used as a map from
  code to card) and \<open>currentPrice\<close> (an object or null), mirrors them into two JSON
  files after every mutation, and reads the files once at startup. The model below is a
  state record with these two variables, the two files, and the one other object the
  handlers can reach and change: \<open>Object.prototype\<close>, through which every property
  lookup on \<open>giftCards\<close> and on a request body falls when the object has no own
  property of that name.

  Scope of the model. The framework (Express, body-parser) is trusted. A request is
  its parsed body (or no body at all). The clock, the outcome of each file write and
  JavaScript's conversion of a non-string value to a property key are inputs of a
  handler call. A file is missing, unreadable, or holds a JSON text of the shape
  \<open>saveData\<close> writes; such a text is identified with the value \<open>JSON.parse\<close> returns
  for it. Strings are byte strings; a finite number is its rational value, so the two
  zeros of IEEE arithmetic are one number here.
\<close>

subsection \<open>JavaScript values\<close>

text \<open>A number as \<open>JSON.parse\<close> can produce it: finite, or an infinity for a literal
  that overflows (\<open>1e999\<close>). \<open>JSON.parse\<close> never produces NaN.\<close>

datatype jsnum = Fin rat | PosInf | NegInf

datatype jsval =
    Undefined
  | Null
  | Bool bool
  | Num jsnum
  | Str string
  | Arr "jsval list"
  | Obj "(string \<times> jsval) list"

datatype jstype = T_undefined | T_object | T_boolean | T_number | T_string

fun typeof :: "jsval \<Rightarrow> jstype" where
  "typeof Undefined = T_undefined"
| "typeof Null = T_object"
| "typeof (Bool b) = T_boolean"
| "typeof (Num n) = T_number"
| "typeof (Str s) = T_string"
| "typeof (Arr xs) = T_object"
| "typeof (Obj kvs) = T_object"

text \<open>\<open>!v\<close> is \<open>\<not> truthy v\<close>.\<close>

fun truthy :: "jsval \<Rightarrow> bool" where
  "truthy Undefined = False"
| "truthy Null = False"
| "truthy (Bool b) = b"
| "truthy (Num n) = (n \<noteq> Fin 0)"
| "truthy (Str s) = (s \<noteq> [])"
| "truthy (Arr xs) = True"
| "truthy (Obj kvs) = True"

text \<open>\<open>n < 0\<close> on numbers.\<close>

fun lt_zero :: "jsnum \<Rightarrow> bool" where
  "lt_zero (Fin r) = (r < 0)"
| "lt_zero PosInf = False"
| "lt_zero NegInf = True"

text \<open>\<open>v < 0\<close> is only evaluated after \<open>typeof v\<close> was found to be \<open>number\<close>, and
  \<open>v.length\<close> and the regular expression only after it was found to be \<open>string\<close>.\<close>

fun num_of :: "jsval \<Rightarrow> jsnum" where
  "num_of (Num n) = n"
| "num_of v = Fin 0"

fun str_of :: "jsval \<Rightarrow> string" where
  "str_of (Str s) = s"
| "str_of v = []"

text \<open>The regular expression \<open>/^[A-Z0-9]{1,25}$/\<close>, without flags: the whole string,
  one to twenty-five characters, each an upper-case ASCII letter or a digit.\<close>

definition char_class :: "char \<Rightarrow> bool" where
  "char_class c = (c \<in> set ''ABCDEFGHIJKLMNOPQRSTUVWXYZ0123456789'')"

definition regex_test :: "string \<Rightarrow> bool" where
  "regex_test s = (1 \<le> length s \<and> length s \<le> 25 \<and> list_all char_class s)"

text \<open>\<open>xs.includes(v)\<close> for an array of strings: strict equality up to NaN, so only a
  string can be found.\<close>

fun array_includes :: "string list \<Rightarrow> jsval \<Rightarrow> bool" where
  "array_includes xs (Str s) = (s \<in> set xs)"
| "array_includes xs v = False"

subsection \<open>The data: cards, prices, files\<close>

text \<open>A stored amount is the number a handler accepted, or null: what \<open>JSON.stringify\<close>
  writes for an infinite number and \<open>JSON.parse\<close> reads back.\<close>

datatype amount_value = Number jsnum | NullAmount

record money =
  amount :: amount_value
  currency :: string

text \<open>The global price record: \<open>{amount, currency, updatedAt}\<close>. Its third field is
  named \<open>price_updatedAt\<close> here, \<open>updatedAt\<close> being the card's field.\<close>

record price_record = money +
  price_updatedAt :: string

record card =
  code :: string
  status :: string
  createdAt :: string
  updatedAt :: "string option"
  price :: "money option"

text \<open>The properties the handlers can add to \<open>Object.prototype\<close> (see \<open>assign\<close>). Its
  \<open>price\<close>, once set, is an object \<open>{amount, currency}\<close> that the handlers can reach
  again as \<open>giftCards['price']\<close> and on which they then write \<open>status\<close>, \<open>updatedAt\<close>
  or \<open>price\<close> in turn.\<close>

record price_object = money +
  added_status :: "string option"
  added_updatedAt :: "string option"
  added_price :: "money option"

record prototype =
  proto_status :: "string option"
  proto_updatedAt :: "string option"
  proto_price :: "price_object option"

datatype 'a json_file = Missing | Unreadable | Holds 'a

text \<open>\<open>fs.writeFile\<close> either writes the whole text, or fails before touching the file, or
  fails after truncating it (a proper prefix of the text \<open>JSON.stringify\<close> produced is
  never a JSON text).\<close>

datatype write_outcome = Written | Failed_untouched | Failed_partial

record state =
  giftCards :: "(string \<times> card) list"
  currentPrice :: "price_record option"
  objectPrototype :: prototype
  CARDS_FILE :: "(string \<times> card) list json_file"
  PRICE_FILE :: "price_record option json_file"

record config =
  ADMIN_USERNAME :: string
  ADMIN_PASSWORD :: string

text \<open>What a handler call takes from outside the program: the conversion of a number,
  array or object to a string (\<open>None\<close> when it throws a TypeError), the value of
  \<open>new Date().toISOString()\<close>, and the outcomes of the two writes of \<open>saveData\<close>.\<close>

record env =
  ToString :: "jsval \<Rightarrow> string option"
  now :: string
  writes :: "write_outcome \<times> write_outcome"

text \<open>The own properties of a parsed request body.\<close>

type_synonym body = "string \<rightharpoonup> jsval"

subsection \<open>Objects as maps: key order, inherited properties\<close>

text \<open>The own properties of \<open>giftCards\<close> are an association list in JavaScript's key
  order: array indices (canonical decimal numerals below \<open>2^32 - 1\<close>) ascending, then
  the other keys in the order of their creation.\<close>

definition index_value :: "string \<Rightarrow> nat" where
  "index_value s = foldl (\<lambda>n c. 10 * n + (of_char c - 48)) 0 s"

definition is_array_index :: "string \<Rightarrow> bool" where
  "is_array_index s =
     (s \<noteq> [] \<and> list_all (\<lambda>c. c \<in> set ''0123456789'') s \<and>
      (s = ''0'' \<or> hd s \<noteq> CHR ''0'') \<and> index_value s < 2 ^ 32 - 1)"

fun insert_index :: "string \<Rightarrow> 'a \<Rightarrow> (string \<times> 'a) list \<Rightarrow> (string \<times> 'a) list" where
  "insert_index k v [] = [(k, v)]"
| "insert_index k v ((k', v') # xs) =
     (if is_array_index k' \<and> index_value k' < index_value k
      then (k', v') # insert_index k v xs
      else (k, v) # (k', v') # xs)"

text \<open>\<open>obj[k] = v\<close> on own properties: an existing property keeps its place.\<close>

definition define_property :: "string \<Rightarrow> 'a \<Rightarrow> (string \<times> 'a) list \<Rightarrow> (string \<times> 'a) list" where
  "define_property k v xs =
     (if is_array_index k \<and> k \<notin> fst ` set xs then insert_index k v xs
      else AList.update k v xs)"

text \<open>The methods of \<open>Object.prototype\<close>; \<open>__proto__\<close> is its one accessor and returns
  \<open>Object.prototype\<close> itself for a plain object.\<close>

definition Object_prototype_methods :: "string list" where
  "Object_prototype_methods =
     [''constructor'', ''__defineGetter__'', ''__defineSetter__'', ''hasOwnProperty'',
      ''__lookupGetter__'', ''__lookupSetter__'', ''isPrototypeOf'',
      ''propertyIsEnumerable'', ''toString'', ''valueOf'', ''toLocaleString'']"

text \<open>What \<open>giftCards[k]\<close> can evaluate to, other than undefined.\<close>

datatype ref =
    CardObject card
  | TheObjectPrototype
  | BuiltinFunction string
  | PrimitiveString string
  | PrototypePrice price_object

definition get_prop :: "state \<Rightarrow> string \<Rightarrow> ref option" where
  "get_prop s k =
     (case map_of (giftCards s) k of
        Some c \<Rightarrow> Some (CardObject c)
      | None \<Rightarrow>
          if k = ''__proto__'' then Some TheObjectPrototype
          else if k \<in> set Object_prototype_methods then Some (BuiltinFunction k)
          else if k = ''status'' then map_option PrimitiveString (proto_status (objectPrototype s))
          else if k = ''updatedAt'' then map_option PrimitiveString (proto_updatedAt (objectPrototype s))
          else if k = ''price'' then map_option PrototypePrice (proto_price (objectPrototype s))
          else None)"

fun is_truthy :: "ref option \<Rightarrow> bool" where
  "is_truthy None = False"
| "is_truthy (Some (PrimitiveString v)) = (v \<noteq> [])"
| "is_truthy (Some r) = True"

text \<open>\<open>giftCards[k].f = v\<close>, with the update of field \<open>f\<close> given for a card, for
  \<open>Object.prototype\<close> and for the price object of the prototype. The lookup is made
  again at each assignment, as in the source. Undefined has no properties: a TypeError
  (\<open>None\<close>). A card, \<open>Object.prototype\<close> or its price object is updated in place. A
  built-in function gets the property too, but a function is left out of every JSON
  text and is truthy whatever its properties, so the state does not record it. On a
  primitive string the assignment is ignored (the module is not in strict mode).\<close>

definition assign ::
  "string \<Rightarrow> (card \<Rightarrow> card) \<Rightarrow> (prototype \<Rightarrow> prototype) \<Rightarrow> (price_object \<Rightarrow> price_object) \<Rightarrow>
   state \<Rightarrow> state option" where
  "assign k on_card on_prototype on_price_object s =
     (case get_prop s k of
        None \<Rightarrow> None
      | Some (CardObject c) \<Rightarrow> Some (s\<lparr>giftCards := AList.map_entry k on_card (giftCards s)\<rparr>)
      | Some TheObjectPrototype \<Rightarrow> Some (s\<lparr>objectPrototype := on_prototype (objectPrototype s)\<rparr>)
      | Some (BuiltinFunction f) \<Rightarrow> Some s
      | Some (PrimitiveString v) \<Rightarrow> Some s
      | Some (PrototypePrice po) \<Rightarrow>
          Some (s\<lparr>objectPrototype :=
                  (objectPrototype s)\<lparr>proto_price := Some (on_price_object po)\<rparr>\<rparr>))"

text \<open>\<open>const { n } = req.body\<close>: the body's own property, else the one inherited from
  \<open>Object.prototype\<close>. Of the names the handlers read (username, password, code,
  status, amount, currency) only \<open>status\<close> can be found there.\<close>

definition body_get :: "state \<Rightarrow> body \<Rightarrow> string \<Rightarrow> jsval" where
  "body_get s b n =
     (case b n of
        Some v \<Rightarrow> v
      | None \<Rightarrow>
          if n = ''status'' then
            (case proto_status (objectPrototype s) of Some v \<Rightarrow> Str v | None \<Rightarrow> Undefined)
          else Undefined)"

text \<open>The property key of \<open>giftCards[code]\<close>.\<close>

fun ToPropertyKey :: "env \<Rightarrow> jsval \<Rightarrow> string option" where
  "ToPropertyKey e (Str s) = Some s"
| "ToPropertyKey e Undefined = Some ''undefined''"
| "ToPropertyKey e Null = Some ''null''"
| "ToPropertyKey e (Bool b) = Some (if b then ''true'' else ''false'')"
| "ToPropertyKey e v = ToString e v"

subsection \<open>Persistence: saveData and loadData\<close>

text \<open>The value \<open>JSON.parse\<close> gives back for what \<open>JSON.stringify\<close> wrote: an infinite
  number has become null, an absent optional field is absent, everything else is
  itself.\<close>

fun json_amount :: "amount_value \<Rightarrow> amount_value" where
  "json_amount (Number (Fin r)) = Number (Fin r)"
| "json_amount (Number PosInf) = NullAmount"
| "json_amount (Number NegInf) = NullAmount"
| "json_amount NullAmount = NullAmount"

definition json_money :: "'a money_scheme \<Rightarrow> 'a money_scheme" where
  "json_money m = m\<lparr>amount := json_amount (amount m)\<rparr>"

definition json_card :: "card \<Rightarrow> card" where
  "json_card c = c\<lparr>price := map_option json_money (price c)\<rparr>"

definition json_cards :: "(string \<times> card) list \<Rightarrow> (string \<times> card) list" where
  "json_cards xs = map (\<lambda>(k, c). (k, json_card c)) xs"

definition write_file :: "write_outcome \<Rightarrow> 'a \<Rightarrow> 'a json_file \<Rightarrow> 'a json_file" where
  "write_file w v f =
     (case w of Written \<Rightarrow> Holds v | Failed_untouched \<Rightarrow> f | Failed_partial \<Rightarrow> Unreadable)"

text \<open>\<open>saveData\<close>: the two writes in sequence inside one \<open>try\<close>; a failure of the first
  skips the second, and the \<open>catch\<close> only logs: nothing is thrown to the caller.\<close>

definition saveData :: "write_outcome \<times> write_outcome \<Rightarrow> state \<Rightarrow> state" where
  "saveData w s =
     (let s1 = s\<lparr>CARDS_FILE := write_file (fst w) (json_cards (giftCards s)) (CARDS_FILE s)\<rparr>
      in if fst w \<noteq> Written then s1
         else s1\<lparr>PRICE_FILE :=
                   write_file (snd w) (map_option json_money (currentPrice s)) (PRICE_FILE s)\<rparr>)"

text \<open>\<open>loadData\<close>: each file in its own \<open>try\<close>; any failure to read or parse (logged
  unless the file is missing) resets the variable.\<close>

definition loadData :: "state \<Rightarrow> state" where
  "loadData s =
     (let s1 = s\<lparr>giftCards := (case CARDS_FILE s of Holds v \<Rightarrow> v | Missing \<Rightarrow> [] | Unreadable \<Rightarrow> [])\<rparr>
      in s1\<lparr>currentPrice := (case PRICE_FILE s1 of Holds v \<Rightarrow> v | Missing \<Rightarrow> None | Unreadable \<Rightarrow> None)\<rparr>)"

text \<open>A fresh process on a data directory: the module's initial values, an untouched
  \<open>Object.prototype\<close>, then \<open>startServer\<close> runs \<open>loadData\<close>.\<close>

definition pristine :: prototype where
  "pristine = \<lparr>proto_status = None, proto_updatedAt = None, proto_price = None\<rparr>"

definition startServer :: "(string \<times> card) list json_file \<Rightarrow> price_record option json_file \<Rightarrow> state" where
  "startServer cards_file price_file =
     loadData \<lparr>giftCards = [], currentPrice = None, objectPrototype = pristine,
               CARDS_FILE = cards_file, PRICE_FILE = price_file\<rparr>"

subsection \<open>Responses\<close>

text \<open>A response is the status code and the object given to \<open>res.json\<close>: one
  constructor for each success payload, and \<open>Failure\<close> with the status code and the
  message for every \<open>{success: false, message}\<close>.\<close>

record stats =
  total_count :: nat
  accepted :: nat
  declined :: nat
  pending :: nat

datatype response =
    LoginOk
  | PriceOk "price_record option"
  | PriceUpdated "price_record option"
  | ValidateOk "ref option" "price_record option"
  | CardsOk "card list"
  | CardUpdated string "ref option"
  | StatsOk stats
  | Failure nat string

subsection \<open>The request handlers\<close>

text \<open>\<open>authenticate\<close>: the destructuring of an undefined body throws outside any
  \<open>try\<close>, which Express hands to the error middleware of the module.\<close>

definition authenticate :: "config \<Rightarrow> body option \<Rightarrow> state \<Rightarrow> state \<times> response \<Rightarrow> state \<times> response" where
  "authenticate cfg rb s proceed =
     (case rb of
        None \<Rightarrow> (s, Failure 500 ''Something went wrong!'')
      | Some b \<Rightarrow>
          if body_get s b ''username'' = Str (ADMIN_USERNAME cfg) \<and>
             body_get s b ''password'' = Str (ADMIN_PASSWORD cfg)
          then proceed
          else (s, Failure 401 ''Invalid credentials''))"

text \<open>POST /api/admin/price.\<close>

definition api_admin_price :: "env \<Rightarrow> body option \<Rightarrow> state \<Rightarrow> state \<times> response" where
  "api_admin_price e rb s =
     (case rb of
        None \<Rightarrow> (s, Failure 500 ''Internal server error'')
      | Some b \<Rightarrow>
          let a = body_get s b ''amount''; c = body_get s b ''currency'' in
          if typeof a \<noteq> T_number \<or> lt_zero (num_of a)
          then (s, Failure 400 ''Invalid price amount'')
          else if \<not> truthy c \<or> typeof c \<noteq> T_string
          then (s, Failure 400 ''Invalid currency'')
          else
            let s1 = s\<lparr>currentPrice :=
                        Some \<lparr>amount = Number (num_of a), currency = str_of c,
                              price_updatedAt = now e\<rparr>\<rparr>;
                s2 = saveData (writes e) s1
            in (s2, PriceUpdated (currentPrice s2)))"

text \<open>POST /api/validate. The key is the code itself, a string at that point.\<close>

definition api_validate :: "env \<Rightarrow> body option \<Rightarrow> state \<Rightarrow> state \<times> response" where
  "api_validate e rb s =
     (case rb of
        None \<Rightarrow> (s, Failure 500 ''Internal server error'')
      | Some b \<Rightarrow>
          let c = body_get s b ''code'' in
          if \<not> truthy c \<or> typeof c \<noteq> T_string \<or> 25 < length (str_of c) \<or>
             \<not> regex_test (str_of c)
          then (s, Failure 400 ''Invalid gift card format'')
          else
            let k = str_of c;
                s1 = (if \<not> is_truthy (get_prop s k)
                      then saveData (writes e)
                             (s\<lparr>giftCards :=
                                  define_property k
                                    \<lparr>code = k, status = ''pending'', createdAt = now e,
                                      updatedAt = None, price = None\<rparr>
                                    (giftCards s)\<rparr>)
                      else s)
            in (s1, ValidateOk (get_prop s1 k) (currentPrice s1)))"

text \<open>POST /api/admin/cards/status.\<close>

definition api_admin_cards_status :: "env \<Rightarrow> body option \<Rightarrow> state \<Rightarrow> state \<times> response" where
  "api_admin_cards_status e rb s =
     (case rb of
        None \<Rightarrow> (s, Failure 500 ''Internal server error'')
      | Some b \<Rightarrow>
          let c = body_get s b ''code''; st = body_get s b ''status'' in
          if \<not> truthy c then (s, Failure 404 ''Gift card not found'')
          else
            (case ToPropertyKey e c of
               None \<Rightarrow> (s, Failure 500 ''Internal server error'')
             | Some k \<Rightarrow>
                 if \<not> is_truthy (get_prop s k) then (s, Failure 404 ''Gift card not found'')
                 else if \<not> array_includes [''pending'', ''accepted'', ''declined''] st
                 then (s, Failure 400 ''Invalid status'')
                 else
                   (case assign k (\<lambda>cd. cd\<lparr>status := str_of st\<rparr>)
                           (\<lambda>p. p\<lparr>proto_status := Some (str_of st)\<rparr>)
                           (\<lambda>po. po\<lparr>added_status := Some (str_of st)\<rparr>) s of
                      None \<Rightarrow> (s, Failure 500 ''Internal server error'')
                    | Some s1 \<Rightarrow>
                        (case assign k (\<lambda>cd. cd\<lparr>updatedAt := Some (now e)\<rparr>)
                                (\<lambda>p. p\<lparr>proto_updatedAt := Some (now e)\<rparr>)
                                (\<lambda>po. po\<lparr>added_updatedAt := Some (now e)\<rparr>) s1 of
                           None \<Rightarrow> (s1, Failure 500 ''Internal server error'')
                         | Some s2 \<Rightarrow>
                             let s3 = saveData (writes e) s2
                             in (s3, CardUpdated ''Status updated successfully'' (get_prop s3 k))))))"

text \<open>POST /api/admin/cards/price.\<close>

definition api_admin_cards_price :: "env \<Rightarrow> body option \<Rightarrow> state \<Rightarrow> state \<times> response" where
  "api_admin_cards_price e rb s =
     (case rb of
        None \<Rightarrow> (s, Failure 500 ''Internal server error'')
      | Some b \<Rightarrow>
          let c = body_get s b ''code''; a = body_get s b ''amount'' in
          if \<not> truthy c then (s, Failure 404 ''Gift card not found'')
          else
            (case ToPropertyKey e c of
               None \<Rightarrow> (s, Failure 500 ''Internal server error'')
             | Some k \<Rightarrow>
                 if \<not> is_truthy (get_prop s k) then (s, Failure 404 ''Gift card not found'')
                 else if typeof a \<noteq> T_number \<or> lt_zero (num_of a)
                 then (s, Failure 400 ''Invalid price amount'')
                 else
                   let cur = (case currentPrice s of Some p \<Rightarrow> currency p | None \<Rightarrow> ''USD'');
                       m = \<lparr>amount = Number (num_of a), currency = cur\<rparr>
                   in
                   (case assign k (\<lambda>cd. cd\<lparr>price := Some m\<rparr>)
                           (\<lambda>p. p\<lparr>proto_price :=
                                    Some \<lparr>amount = Number (num_of a), currency = cur,
                                          added_status = None, added_updatedAt = None,
                                          added_price = None\<rparr>\<rparr>)
                           (\<lambda>po. po\<lparr>added_price := Some m\<rparr>) s of
                      None \<Rightarrow> (s, Failure 500 ''Internal server error'')
                    | Some s1 \<Rightarrow>
                        (case assign k (\<lambda>cd. cd\<lparr>updatedAt := Some (now e)\<rparr>)
                                (\<lambda>p. p\<lparr>proto_updatedAt := Some (now e)\<rparr>)
                                (\<lambda>po. po\<lparr>added_updatedAt := Some (now e)\<rparr>) s1 of
                           None \<Rightarrow> (s1, Failure 500 ''Internal server error'')
                         | Some s2 \<Rightarrow>
                             let s3 = saveData (writes e) s2
                             in (s3, CardUpdated ''Price updated successfully'' (get_prop s3 k))))))"

text \<open>POST /api/admin/stats, over \<open>Object.values(giftCards)\<close>.\<close>

definition api_admin_stats :: "state \<Rightarrow> stats" where
  "api_admin_stats s =
     (let cards = map snd (giftCards s) in
      \<lparr>total_count = length cards,
       accepted = length (filter (\<lambda>card. status card = ''accepted'') cards),
       declined = length (filter (\<lambda>card. status card = ''declined'') cards),
       pending = length (filter (\<lambda>card. status card = ''pending'') cards)\<rparr>)"

subsection \<open>The routes and the reachable states\<close>

datatype route =
    POST_admin_login
  | GET_price
  | POST_admin_price
  | POST_validate
  | POST_admin_cards
  | POST_admin_cards_status
  | POST_admin_cards_price
  | POST_admin_stats

definition handle :: "config \<Rightarrow> env \<Rightarrow> route \<Rightarrow> body option \<Rightarrow> state \<Rightarrow> state \<times> response" where
  "handle cfg e r rb s =
     (case r of
        POST_admin_login \<Rightarrow> authenticate cfg rb s (s, LoginOk)
      | GET_price \<Rightarrow> (s, PriceOk (currentPrice s))
      | POST_admin_price \<Rightarrow> authenticate cfg rb s (api_admin_price e rb s)
      | POST_validate \<Rightarrow> api_validate e rb s
      | POST_admin_cards \<Rightarrow> authenticate cfg rb s (s, CardsOk (map snd (giftCards s)))
      | POST_admin_cards_status \<Rightarrow> authenticate cfg rb s (api_admin_cards_status e rb s)
      | POST_admin_cards_price \<Rightarrow> authenticate cfg rb s (api_admin_cards_price e rb s)
      | POST_admin_stats \<Rightarrow> authenticate cfg rb s (s, StatsOk (api_admin_stats s)))"

text \<open>The states of the service: a first start on an empty data directory, then any
  request, any restart of the process on the files as they are, and any termination
  signal (which runs \<open>saveData\<close>).\<close>

inductive reachable :: "config \<Rightarrow> state \<Rightarrow> bool" for cfg :: config where
  first_start: "reachable cfg (startServer Missing Missing)"
| request: "reachable cfg s \<Longrightarrow> reachable cfg (fst (handle cfg e r rb s))"
| restart: "reachable cfg s \<Longrightarrow> reachable cfg (startServer (CARDS_FILE s) (PRICE_FILE s))"
| signal: "reachable cfg s \<Longrightarrow> reachable cfg (saveData w s)"

subsection \<open>Predicates of the statements\<close>

text \<open>These are not in the source. A non-negative number, as the spec says it of an
  amount, where the code tests \<open>typeof amount !== 'number' || amount < 0\<close>:\<close>

fun non_negative :: "jsnum \<Rightarrow> bool" where
  "non_negative (Fin r) = (0 \<le> r)"
| "non_negative PosInf = True"
| "non_negative NegInf = False"

text \<open>An amount that a JSON text can carry: a finite number, or null.\<close>

fun representable :: "amount_value \<Rightarrow> bool" where
  "representable (Number (Fin r)) = True"
| "representable (Number PosInf) = False"
| "representable (Number NegInf) = False"
| "representable NullAmount = True"

definition representable_card :: "card \<Rightarrow> bool" where
  "representable_card c = (case price c of None \<Rightarrow> True | Some m \<Rightarrow> representable (amount m))"

definition representable_state :: "state \<Rightarrow> bool" where
  "representable_state s =
     (list_all (\<lambda>(k, c). representable_card c) (giftCards s) \<and>
      (case currentPrice s of None \<Rightarrow> True | Some p \<Rightarrow> representable (amount p)))"

text \<open>The three statuses, and a card map all of whose keys are well-formed codes and
  all of whose statuses are among the three.\<close>

definition statuses :: "string list" where
  "statuses = [''pending'', ''accepted'', ''declined'']"

definition cards_ok :: "(string \<times> card) list \<Rightarrow> bool" where
  "cards_ok xs = list_all (\<lambda>(k, c). regex_test k \<and> status c \<in> set statuses) xs"

definition state_ok :: "state \<Rightarrow> bool" where
  "state_ok s =
     (cards_ok (giftCards s) \<and>
      (case CARDS_FILE s of Holds xs \<Rightarrow> cards_ok xs | Missing \<Rightarrow> True | Unreadable \<Rightarrow> True))"

text \<open>Inputs for the worked examples.\<close>

definition env0 :: env where
  "env0 = \<lparr>ToString = (\<lambda>v. None), now = ''2024-05-01T10:00:00.000Z'', writes = (Written, Written)\<rparr>"

definition env1 :: env where
  "env1 = \<lparr>ToString = (\<lambda>v. None), now = ''2024-05-02T11:30:00.000Z'', writes = (Written, Written)\<rparr>"

definition env_disk_full :: env where
  "env_disk_full =
     \<lparr>ToString = (\<lambda>v. None), now = ''2024-05-01T10:00:00.000Z'',
      writes = (Failed_partial, Written)\<rparr>"

definition fresh :: state where
  "fresh = startServer Missing Missing"

definition cfg0 :: config where
  "cfg0 = \<lparr>ADMIN_USERNAME = ''admin'', ADMIN_PASSWORD = ''admin123''\<rparr>"

text \<open>The state after \<open>ABC123\<close> was validated on a fresh service.\<close>

definition registered :: state where
  "registered = fst (api_validate env0 (Some [''code'' \<mapsto> Str ''ABC123'']) fresh)"

text \<open>The same state after the administrator has set the global price to 10 EUR.\<close>

definition priced :: state where
  "priced = fst (api_admin_price env0
     (Some [''amount'' \<mapsto> Num (Fin 10), ''currency'' \<mapsto> Str ''EUR'']) registered)"

text \<open>The state after the administrator has set the global price with the amount
  \<open>1e999\<close>, which \<open>JSON.parse\<close> reads as Infinity.\<close>

definition infinite_price :: state where
  "infinite_price = fst (api_admin_price env0
     (Some [''amount'' \<mapsto> Num PosInf, ''currency'' \<mapsto> Str ''USD'']) registered)"

text \<open>A code whose conversion to a property key throws: an object whose \<open>toString\<close>
  and \<open>valueOf\<close> are not callable.\<close>

definition unprintable :: jsval where
  "unprintable = Obj [(''toString'', Null), (''valueOf'', Null)]"

text \<open>Four cards, validated one after the other through the routes, of which the
  administrator has then accepted the first and declined the second.\<close>

definition four_cards :: state where
  "four_cards =
     fst (handle cfg0 env0 POST_validate (Some [''code'' \<mapsto> Str ''D4''])
       (fst (handle cfg0 env0 POST_validate (Some [''code'' \<mapsto> Str ''C3''])
         (fst (handle cfg0 env0 POST_validate (Some [''code'' \<mapsto> Str ''B2''])
           (fst (handle cfg0 env0 POST_validate (Some [''code'' \<mapsto> Str ''ABC123'']) fresh)))))))"

definition mixed :: state where
  "mixed =
     fst (handle cfg0 env1 POST_admin_cards_status
            (Some [''username'' \<mapsto> Str ''admin'', ''password'' \<mapsto> Str ''admin123'',
                   ''code'' \<mapsto> Str ''B2'', ''status'' \<mapsto> Str ''declined''])
       (fst (handle cfg0 env1 POST_admin_cards_status
               (Some [''username'' \<mapsto> Str ''admin'', ''password'' \<mapsto> Str ''admin123'',
                      ''code'' \<mapsto> Str ''ABC123'', ''status'' \<mapsto> Str ''accepted''])
               four_cards)))"

text \<open>The state after the administrator's request
  \<open>{code: '__proto__', status: 'accepted'}\<close> on the service with the one card.\<close>

definition polluted :: state where
  "polluted =
     fst (handle cfg0 env0 POST_admin_cards_status
            (Some [''username'' \<mapsto> Str ''admin'', ''password'' \<mapsto> Str ''admin123'',
                   ''code'' \<mapsto> Str ''__proto__'', ''status'' \<mapsto> Str ''accepted''])
            registered)"

section \<open>Properties\<close>

subsection \<open>Lookups, key order and persistence\<close>

lemma char_class_t: "\<not> char_class (CHR ''t'')" "\<not> char_class (CHR ''e'')"
  by (simp_all add: char_class_def)

lemma regex_test_chars: "regex_test c \<Longrightarrow> CHR ''t'' \<notin> set c \<and> CHR ''e'' \<notin> set c"
  unfolding regex_test_def list_all_iff using char_class_t by blast

lemma methods_chars:
  "\<forall>n \<in> set Object_prototype_methods. CHR ''t'' \<in> set n \<or> CHR ''e'' \<in> set n"
  by (simp add: Object_prototype_methods_def)

text \<open>No well-formed code is the name of an inherited property: each of those names
  has a lower-case \<open>t\<close> or \<open>e\<close>.\<close>

lemma regex_test_not_inherited:
  assumes "regex_test c"
  shows "c \<noteq> ''__proto__''" and "c \<notin> set Object_prototype_methods"
    and "c \<noteq> ''status''" and "c \<noteq> ''updatedAt''" and "c \<noteq> ''price''"
proof -
  note tc = regex_test_chars [OF assms]
  have "CHR ''t'' \<in> set ''__proto__''" by simp
  with tc show "c \<noteq> ''__proto__''" by blast
  from tc methods_chars show "c \<notin> set Object_prototype_methods" by blast
  have "CHR ''t'' \<in> set ''status''" by simp
  with tc show "c \<noteq> ''status''" by blast
  have "CHR ''t'' \<in> set ''updatedAt''" by simp
  with tc show "c \<noteq> ''updatedAt''" by blast
  have "CHR ''e'' \<in> set ''price''" by simp
  with tc show "c \<noteq> ''price''" by blast
qed

lemma get_prop_code:
  "regex_test c \<Longrightarrow> get_prop s c = map_option CardObject (map_of (giftCards s) c)"
  by (simp add: get_prop_def regex_test_not_inherited split: option.splits)

lemma get_prop_own:
  "map_of (giftCards s) c = Some cd \<Longrightarrow> get_prop s c = Some (CardObject cd)"
  by (simp add: get_prop_def)

lemma get_prop_cong:
  assumes "giftCards s = giftCards s'" and "objectPrototype s = objectPrototype s'"
  shows "get_prop s k = get_prop s' k"
  unfolding get_prop_def assms by (rule refl)

lemma map_of_insert_index: "map_of (insert_index k v xs) = (map_of xs)(k \<mapsto> v)"
  by (induction xs) (auto simp: fun_eq_iff)

lemma map_of_define_property: "map_of (define_property k v xs) = (map_of xs)(k \<mapsto> v)"
  by (simp add: define_property_def map_of_insert_index update_conv')

lemma length_update_new: "k \<notin> fst ` set xs \<Longrightarrow> length (AList.update k v xs) = Suc (length xs)"
  by (induction xs) auto

lemma length_insert_index: "length (insert_index k v xs) = Suc (length xs)"
  by (induction xs) auto

lemma length_define_property:
  "map_of xs k = None \<Longrightarrow> length (define_property k v xs) = Suc (length xs)"
  by (simp add: define_property_def length_insert_index length_update_new map_of_eq_None_iff)

text \<open>\<open>saveData\<close> touches the two files and nothing else.\<close>

lemma saveData_memory [simp]:
  "giftCards (saveData w s) = giftCards s"
  "currentPrice (saveData w s) = currentPrice s"
  "objectPrototype (saveData w s) = objectPrototype s"
  by (simp_all add: saveData_def Let_def)

lemma get_prop_saveData [simp]: "get_prop (saveData w s) k = get_prop s k"
  by (rule get_prop_cong) simp_all

lemma saveData_written:
  "CARDS_FILE (saveData (Written, Written) s) = Holds (json_cards (giftCards s))"
  "PRICE_FILE (saveData (Written, Written) s) = Holds (map_option json_money (currentPrice s))"
  by (simp_all add: saveData_def Let_def write_file_def)

lemma fresh_eq:
  "fresh = \<lparr>giftCards = [], currentPrice = None, objectPrototype = pristine,
            CARDS_FILE = Missing, PRICE_FILE = Missing\<rparr>"
  by (simp add: fresh_def startServer_def loadData_def Let_def)

lemma regex_test_ABC123: "regex_test ''ABC123''"
  by (simp add: regex_test_def char_class_def)

subsection \<open>Validation of a code\<close>

text \<open>
  C1. Let \<open>c\<close> match \<open>^[A-Z0-9]{1,25}$\<close> and let the card map have no entry for \<open>c\<close>.
  A validate request for \<open>c\<close> answers with the new record
  \<open>{code: c, status: 'pending', createdAt: now}\<close> and the current global price; the
  card map afterwards is the old one with exactly this one entry added; the global
  price and \<open>Object.prototype\<close> are untouched; \<open>saveData\<close> has run on the new map (so
  the cards file holds it when the writes succeed); and a further validate request
  for \<open>c\<close>, at any later time and whatever its writes would do, answers with the same
  record and price and leaves the whole state as it is. More generally, in any state
  that has an entry for \<open>c\<close>, a validate request for \<open>c\<close> answers with that entry and
  the global price and changes nothing.
\<close>

theorem validate_creates_once:
  fixes e e' :: env and s :: state and c :: string and b :: body
  defines "new \<equiv> \<lparr>code = c, status = ''pending'', createdAt = now e, updatedAt = None, price = None\<rparr>"
  defines "s1 \<equiv> fst (api_validate e (Some b) s)"
  assumes valid: "regex_test c" and sent: "b ''code'' = Some (Str c)"
    and absent: "map_of (giftCards s) c = None"
  shows "snd (api_validate e (Some b) s) = ValidateOk (Some (CardObject new)) (currentPrice s) \<and>
         map_of (giftCards s1) = (map_of (giftCards s))(c \<mapsto> new) \<and>
         length (giftCards s1) = Suc (length (giftCards s)) \<and>
         currentPrice s1 = currentPrice s \<and>
         objectPrototype s1 = objectPrototype s \<and>
         s1 = saveData (writes e) (s\<lparr>giftCards := giftCards s1\<rparr>) \<and>
         (writes e = (Written, Written) \<longrightarrow> CARDS_FILE s1 = Holds (json_cards (giftCards s1))) \<and>
         api_validate e' (Some b) s1 = (s1, ValidateOk (Some (CardObject new)) (currentPrice s)) \<and>
         (\<forall>s2 cd. map_of (giftCards s2) c = Some cd \<longrightarrow>
            api_validate e' (Some b) s2 = (s2, ValidateOk (Some (CardObject cd)) (currentPrice s2)))"
proof -
  have len: "length c \<le> 25" "c \<noteq> []" using valid by (auto simp: regex_test_def)
  have run: "api_validate e (Some b) s =
      (saveData (writes e) (s\<lparr>giftCards := define_property c new (giftCards s)\<rparr>),
       ValidateOk (Some (CardObject new)) (currentPrice s))"
    using valid sent absent len
    by (simp add: api_validate_def body_get_def get_prop_code Let_def new_def
        map_of_define_property)
  then have s1: "s1 = saveData (writes e) (s\<lparr>giftCards := define_property c new (giftCards s)\<rparr>)"
    by (simp add: s1_def)
  have r: "snd (api_validate e (Some b) s) = ValidateOk (Some (CardObject new)) (currentPrice s)"
    using run by simp
  have m: "map_of (giftCards s1) = (map_of (giftCards s))(c \<mapsto> new)"
    by (simp add: s1 map_of_define_property)
  have l: "length (giftCards s1) = Suc (length (giftCards s))"
    by (simp add: s1 length_define_property absent)
  have cp: "currentPrice s1 = currentPrice s" "objectPrototype s1 = objectPrototype s"
    by (simp_all add: s1)
  have sv: "s1 = saveData (writes e) (s\<lparr>giftCards := giftCards s1\<rparr>)"
    by (simp add: s1)
  have wr: "writes e = (Written, Written) \<longrightarrow> CARDS_FILE s1 = Holds (json_cards (giftCards s1))"
    by (simp add: s1 saveData_written)
  have again: "api_validate e' (Some b) s1 = (s1, ValidateOk (Some (CardObject new)) (currentPrice s))"
    using valid sent len m cp
    by (simp add: api_validate_def body_get_def get_prop_code Let_def)
  have later: "\<forall>s2 cd. map_of (giftCards s2) c = Some cd \<longrightarrow>
      api_validate e' (Some b) s2 = (s2, ValidateOk (Some (CardObject cd)) (currentPrice s2))"
    using valid sent len
    by (simp add: api_validate_def body_get_def get_prop_code Let_def)
  from r m l cp sv wr again later show ?thesis by blast
qed

theorem validate_creates_once_witness:
  "regex_test ''ABC123'' \<and> map_of (giftCards fresh) ''ABC123'' = None \<and>
   snd (api_validate env0 (Some [''code'' \<mapsto> Str ''ABC123'']) fresh) =
     ValidateOk (Some (CardObject \<lparr>code = ''ABC123'', status = ''pending'',
        createdAt = ''2024-05-01T10:00:00.000Z'', updatedAt = None, price = None\<rparr>)) None \<and>
   length (giftCards (fst (api_validate env0 (Some [''code'' \<mapsto> Str ''ABC123'']) fresh))) = 1 \<and>
   CARDS_FILE (fst (api_validate env0 (Some [''code'' \<mapsto> Str ''ABC123'']) fresh)) =
     Holds (json_cards (giftCards (fst (api_validate env0 (Some [''code'' \<mapsto> Str ''ABC123'']) fresh)))) \<and>
   snd (api_validate env1 (Some [''code'' \<mapsto> Str ''ABC123''])
          (fst (api_validate env0 (Some [''code'' \<mapsto> Str ''ABC123'']) fresh))) =
     ValidateOk (Some (CardObject \<lparr>code = ''ABC123'', status = ''pending'',
        createdAt = ''2024-05-01T10:00:00.000Z'', updatedAt = None, price = None\<rparr>)) None"
  using validate_creates_once [of "''ABC123''" "[''code'' \<mapsto> Str ''ABC123'']" fresh env0 env1]
    regex_test_ABC123
  by (simp add: fresh_eq env0_def)

text \<open>
  C2. When the body's code is absent, or is not a string, or is a string that does
  not match \<open>^[A-Z0-9]{1,25}$\<close> (empty, longer than 25, or with a character that is
  not an upper-case letter or a digit), validate answers 400 \<open>Invalid gift card format\<close>
  and the state, the card map in it, is what it was.
\<close>

theorem validate_rejects_malformed_code:
  assumes "\<not> (\<exists>c. b ''code'' = Some (Str c) \<and> regex_test c)"
  shows "api_validate e (Some b) s = (s, Failure 400 ''Invalid gift card format'')"
proof (cases "b ''code''")
  case None
  then show ?thesis by (simp add: api_validate_def body_get_def)
next
  case (Some v)
  with assms show ?thesis
    by (cases v) (simp_all add: api_validate_def body_get_def)
qed

theorem validate_rejects_malformed_code_witness:
  "api_validate env0 (Some [''code'' \<mapsto> Str ''abc123'']) fresh =
     (fresh, Failure 400 ''Invalid gift card format'') \<and>
   api_validate env0 (Some [''code'' \<mapsto> Str ''AB-12'']) fresh =
     (fresh, Failure 400 ''Invalid gift card format'') \<and>
   api_validate env0 (Some [''code'' \<mapsto> Str []]) fresh =
     (fresh, Failure 400 ''Invalid gift card format'') \<and>
   api_validate env0 (Some [''code'' \<mapsto> Str ''ABCDEFGHIJKLMNOPQRSTUVWXYZ'']) fresh =
     (fresh, Failure 400 ''Invalid gift card format'') \<and>
   api_validate env0 (Some [''code'' \<mapsto> Num (Fin 12345)]) fresh =
     (fresh, Failure 400 ''Invalid gift card format'') \<and>
   api_validate env0 (Some Map.empty) fresh =
     (fresh, Failure 400 ''Invalid gift card format'')"
  using validate_rejects_malformed_code [of "[''code'' \<mapsto> Str ''abc123'']" env0 fresh]
    validate_rejects_malformed_code [of "[''code'' \<mapsto> Str ''AB-12'']" env0 fresh]
    validate_rejects_malformed_code [of "[''code'' \<mapsto> Str []]" env0 fresh]
    validate_rejects_malformed_code [of "[''code'' \<mapsto> Str ''ABCDEFGHIJKLMNOPQRSTUVWXYZ'']" env0 fresh]
    validate_rejects_malformed_code [of "[''code'' \<mapsto> Num (Fin 12345)]" env0 fresh]
    validate_rejects_malformed_code [of "Map.empty" env0 fresh]
  by (simp add: regex_test_def char_class_def)

lemma lt_zero_iff: "lt_zero n = (\<not> non_negative n)"
  by (cases n) auto

lemma registered_eq:
  "registered =
     \<lparr>giftCards = [(''ABC123'', \<lparr>code = ''ABC123'', status = ''pending'',
          createdAt = ''2024-05-01T10:00:00.000Z'', updatedAt = None, price = None\<rparr>)],
      currentPrice = None, objectPrototype = pristine,
      CARDS_FILE = Holds [(''ABC123'', \<lparr>code = ''ABC123'', status = ''pending'',
          createdAt = ''2024-05-01T10:00:00.000Z'', updatedAt = None, price = None\<rparr>)],
      PRICE_FILE = Holds None\<rparr>"
  using regex_test_ABC123
  by (simp add: registered_def api_validate_def body_get_def get_prop_code fresh_eq env0_def
      Let_def saveData_def write_file_def define_property_def is_array_index_def
      json_cards_def json_card_def)

subsection \<open>The global price\<close>

text \<open>
  C4. The price handler answers 400 \<open>Invalid price amount\<close> unless the body's amount
  is a non-negative number, and then 400 \<open>Invalid currency\<close> unless its currency is a
  non-empty string; in both cases the state, the stored price record in it, is what
  it was. Otherwise \<open>currentPrice\<close> becomes the record of the new amount, the new
  currency and the time of the call, nothing of the old record being kept,
  \<open>saveData\<close> runs on that state (so the price file holds the record when the writes
  succeed), and the answer carries the record.
\<close>

theorem admin_price_replaces_record:
  fixes e :: env and s :: state and b :: body
  shows
  "(\<not> (\<exists>n. b ''amount'' = Some (Num n) \<and> non_negative n) \<longrightarrow>
      api_admin_price e (Some b) s = (s, Failure 400 ''Invalid price amount'')) \<and>
   ((\<exists>n. b ''amount'' = Some (Num n) \<and> non_negative n) \<and>
    \<not> (\<exists>c. b ''currency'' = Some (Str c) \<and> c \<noteq> []) \<longrightarrow>
      api_admin_price e (Some b) s = (s, Failure 400 ''Invalid currency'')) \<and>
   (\<forall>n c. b ''amount'' = Some (Num n) \<and> non_negative n \<and>
          b ''currency'' = Some (Str c) \<and> c \<noteq> [] \<longrightarrow>
      api_admin_price e (Some b) s =
        (saveData (writes e)
           (s\<lparr>currentPrice :=
                Some \<lparr>amount = Number n, currency = c, price_updatedAt = now e\<rparr>\<rparr>),
         PriceUpdated (Some \<lparr>amount = Number n, currency = c, price_updatedAt = now e\<rparr>)) \<and>
      (writes e = (Written, Written) \<longrightarrow>
         PRICE_FILE (fst (api_admin_price e (Some b) s)) =
           Holds (Some (json_money \<lparr>amount = Number n, currency = c, price_updatedAt = now e\<rparr>))))"
proof (intro conjI impI allI)
  assume bad: "\<not> (\<exists>n. b ''amount'' = Some (Num n) \<and> non_negative n)"
  show "api_admin_price e (Some b) s = (s, Failure 400 ''Invalid price amount'')"
  proof (cases "b ''amount''")
    case None
    then show ?thesis by (simp add: api_admin_price_def body_get_def)
  next
    case (Some v)
    with bad show ?thesis
      by (cases v) (simp_all add: api_admin_price_def body_get_def lt_zero_iff)
  qed
next
  assume "(\<exists>n. b ''amount'' = Some (Num n) \<and> non_negative n) \<and>
    \<not> (\<exists>c. b ''currency'' = Some (Str c) \<and> c \<noteq> [])"
  then obtain n where n: "b ''amount'' = Some (Num n)" "non_negative n"
    and bad: "\<not> (\<exists>c. b ''currency'' = Some (Str c) \<and> c \<noteq> [])" by blast
  show "api_admin_price e (Some b) s = (s, Failure 400 ''Invalid currency'')"
  proof (cases "b ''currency''")
    case None
    with n show ?thesis by (simp add: api_admin_price_def body_get_def lt_zero_iff)
  next
    case (Some v)
    with n bad show ?thesis
      by (cases v) (simp_all add: api_admin_price_def body_get_def lt_zero_iff)
  qed
next
  fix n c
  assume ok: "b ''amount'' = Some (Num n) \<and> non_negative n \<and>
          b ''currency'' = Some (Str c) \<and> c \<noteq> []"
  then show run: "api_admin_price e (Some b) s =
        (saveData (writes e)
           (s\<lparr>currentPrice :=
                Some \<lparr>amount = Number n, currency = c, price_updatedAt = now e\<rparr>\<rparr>),
         PriceUpdated (Some \<lparr>amount = Number n, currency = c, price_updatedAt = now e\<rparr>))"
    by (simp add: api_admin_price_def body_get_def lt_zero_iff Let_def)
  assume "writes e = (Written, Written)"
  with run show "PRICE_FILE (fst (api_admin_price e (Some b) s)) =
           Holds (Some (json_money \<lparr>amount = Number n, currency = c, price_updatedAt = now e\<rparr>))"
    by (simp add: saveData_written)
qed

theorem admin_price_replaces_record_witness:
  "api_admin_price env0 (Some [''amount'' \<mapsto> Num (Fin (-1)), ''currency'' \<mapsto> Str ''USD'']) registered =
     (registered, Failure 400 ''Invalid price amount'') \<and>
   api_admin_price env0 (Some [''amount'' \<mapsto> Str ''9.99'', ''currency'' \<mapsto> Str ''USD'']) registered =
     (registered, Failure 400 ''Invalid price amount'') \<and>
   api_admin_price env0 (Some [''amount'' \<mapsto> Num (Fin (999 / 100)), ''currency'' \<mapsto> Str []]) registered =
     (registered, Failure 400 ''Invalid currency'') \<and>
   snd (api_admin_price env0 (Some [''amount'' \<mapsto> Num (Fin (999 / 100)), ''currency'' \<mapsto> Str ''USD'']) registered) =
     PriceUpdated (Some \<lparr>amount = Number (Fin (999 / 100)), currency = ''USD'',
        price_updatedAt = ''2024-05-01T10:00:00.000Z''\<rparr>) \<and>
   PRICE_FILE (fst (api_admin_price env0 (Some [''amount'' \<mapsto> Num (Fin (999 / 100)), ''currency'' \<mapsto> Str ''USD'']) registered)) =
     Holds (Some \<lparr>amount = Number (Fin (999 / 100)), currency = ''USD'',
        price_updatedAt = ''2024-05-01T10:00:00.000Z''\<rparr>)"
  using admin_price_replaces_record [of "[''amount'' \<mapsto> Num (Fin (-1)), ''currency'' \<mapsto> Str ''USD'']" env0 registered]
    admin_price_replaces_record [of "[''amount'' \<mapsto> Str ''9.99'', ''currency'' \<mapsto> Str ''USD'']" env0 registered]
    admin_price_replaces_record [of "[''amount'' \<mapsto> Num (Fin (999 / 100)), ''currency'' \<mapsto> Str []]" env0 registered]
    admin_price_replaces_record [of "[''amount'' \<mapsto> Num (Fin (999 / 100)), ''currency'' \<mapsto> Str ''USD'']" env0 registered]
  by (simp add: env0_def json_money_def saveData_written)

lemma map_entry_twice:
  "AList.map_entry k f (AList.map_entry k g xs) = AList.map_entry k (\<lambda>x. f (g x)) xs"
  by (induction xs) auto

lemma map_fst_map_entry: "map fst (AList.map_entry k f xs) = map fst xs"
  by (induction xs) auto

lemma assign_own:
  "map_of (giftCards s) k = Some cd \<Longrightarrow>
   assign k f g h s = Some (s\<lparr>giftCards := AList.map_entry k f (giftCards s)\<rparr>)"
  by (simp add: assign_def get_prop_own)

lemma map_of_map_entry_own:
  "map_of xs k = Some cd \<Longrightarrow> map_of (AList.map_entry k f xs) = (map_of xs)(k \<mapsto> f cd)"
  by (simp add: map_of_map_entry)

lemma statuses_includes:
  "array_includes [''pending'', ''accepted'', ''declined''] v = (\<exists>x \<in> set statuses. v = Str x)"
  by (cases v) (auto simp: statuses_def)

subsection \<open>Status and price of a registered card\<close>

text \<open>
  The status handler on a registered code \<open>c\<close>, in terms of the status \<open>st\<close> that the
  handler reads from the request: the body's own status, or the one
  \<open>Object.prototype\<close> supplies when the body has none. If \<open>st\<close> is not one of pending,
  accepted, declined, the handler answers 400 \<open>Invalid status\<close> and the state is what
  it was. If it is one of them, the entry of \<open>c\<close> gets this status and the time of
  the call as \<open>updatedAt\<close>, every other entry and the order of the keys stay, the
  global price stays, \<open>saveData\<close> runs, and the answer carries the updated record.
  A registered code is never empty (\<open>reachable_state_ok\<close> below).
\<close>

lemma set_status_registered:
  fixes e :: env and s :: state and b :: body and c :: string and cd :: card
  defines "st \<equiv> body_get s b ''status''"
  assumes nonempty: "c \<noteq> []" and sent: "b ''code'' = Some (Str c)"
    and registered: "map_of (giftCards s) c = Some cd"
  shows
  "(\<not> (\<exists>v \<in> set statuses. st = Str v) \<longrightarrow>
      api_admin_cards_status e (Some b) s = (s, Failure 400 ''Invalid status'')) \<and>
   (\<forall>v \<in> set statuses. st = Str v \<longrightarrow>
      api_admin_cards_status e (Some b) s =
        (saveData (writes e)
           (s\<lparr>giftCards :=
                AList.map_entry c (\<lambda>x. x\<lparr>status := v, updatedAt := Some (now e)\<rparr>) (giftCards s)\<rparr>),
         CardUpdated ''Status updated successfully''
           (Some (CardObject (cd\<lparr>status := v, updatedAt := Some (now e)\<rparr>)))) \<and>
      map_of (giftCards (fst (api_admin_cards_status e (Some b) s))) =
        (map_of (giftCards s))(c \<mapsto> cd\<lparr>status := v, updatedAt := Some (now e)\<rparr>) \<and>
      map fst (giftCards (fst (api_admin_cards_status e (Some b) s))) = map fst (giftCards s) \<and>
      currentPrice (fst (api_admin_cards_status e (Some b) s)) = currentPrice s \<and>
      (writes e = (Written, Written) \<longrightarrow>
         CARDS_FILE (fst (api_admin_cards_status e (Some b) s)) =
           Holds (json_cards (giftCards (fst (api_admin_cards_status e (Some b) s))))))"
proof (intro conjI impI ballI)
  have code: "body_get s b ''code'' = Str c"
    using sent by (simp add: body_get_def)
  assume "\<not> (\<exists>v \<in> set statuses. st = Str v)"
  then show "api_admin_cards_status e (Some b) s = (s, Failure 400 ''Invalid status'')"
    using nonempty registered
    by (simp add: api_admin_cards_status_def code get_prop_own
        statuses_includes st_def Let_def)
next
  fix v
  assume v: "v \<in> set statuses" "st = Str v"
  have code: "body_get s b ''code'' = Str c"
    using sent by (simp add: body_get_def)
  let ?cd = "cd\<lparr>status := v, updatedAt := Some (now e)\<rparr>"
  let ?s2 = "s\<lparr>giftCards :=
                AList.map_entry c (\<lambda>x. x\<lparr>status := v, updatedAt := Some (now e)\<rparr>) (giftCards s)\<rparr>"
  have inc: "array_includes [''pending'', ''accepted'', ''declined''] st"
    unfolding statuses_includes using v by blast
  have a1: "assign c (\<lambda>cd. cd\<lparr>status := v\<rparr>) (\<lambda>p. p\<lparr>proto_status := Some v\<rparr>)
        (\<lambda>po. po\<lparr>added_status := Some v\<rparr>) s =
      Some (s\<lparr>giftCards := AList.map_entry c (\<lambda>cd. cd\<lparr>status := v\<rparr>) (giftCards s)\<rparr>)"
    using registered by (rule assign_own)
  have a2: "assign c (\<lambda>cd. cd\<lparr>updatedAt := Some (now e)\<rparr>) (\<lambda>p. p\<lparr>proto_updatedAt := Some (now e)\<rparr>)
        (\<lambda>po. po\<lparr>added_updatedAt := Some (now e)\<rparr>)
        (s\<lparr>giftCards := AList.map_entry c (\<lambda>cd. cd\<lparr>status := v\<rparr>) (giftCards s)\<rparr>) = Some ?s2"
    using registered
    by (subst assign_own [where cd = "cd\<lparr>status := v\<rparr>"])
      (simp_all add: map_of_map_entry map_entry_twice)
  have m: "map_of (AList.map_entry c (\<lambda>x. x\<lparr>status := v, updatedAt := Some (now e)\<rparr>) (giftCards s)) =
      (map_of (giftCards s))(c \<mapsto> ?cd)"
    using registered by (simp add: map_of_map_entry_own)
  have g: "get_prop (saveData (writes e) ?s2) c = Some (CardObject ?cd)"
    unfolding get_prop_saveData by (rule get_prop_own) (simp add: m)
  show run: "api_admin_cards_status e (Some b) s =
        (saveData (writes e) ?s2,
         CardUpdated ''Status updated successfully'' (Some (CardObject ?cd)))"
    using nonempty registered inc v(2) g a1 a2
    by (simp add: api_admin_cards_status_def code get_prop_own
        st_def Let_def)
  show "map_of (giftCards (fst (api_admin_cards_status e (Some b) s))) =
        (map_of (giftCards s))(c \<mapsto> ?cd)"
    by (simp add: run m)
  show "map fst (giftCards (fst (api_admin_cards_status e (Some b) s))) = map fst (giftCards s)"
    by (simp add: run map_fst_map_entry)
  show "currentPrice (fst (api_admin_cards_status e (Some b) s)) = currentPrice s"
    by (simp add: run)
  assume "writes e = (Written, Written)"
  then show "CARDS_FILE (fst (api_admin_cards_status e (Some b) s)) =
           Holds (json_cards (giftCards (fst (api_admin_cards_status e (Some b) s))))"
    by (simp add: run saveData_written)
qed

lemma set_status_registered_example:
  "api_admin_cards_status env1
     (Some [''code'' \<mapsto> Str ''ABC123'', ''status'' \<mapsto> Str ''shipped'']) registered =
     (registered, Failure 400 ''Invalid status'') \<and>
   snd (api_admin_cards_status env1
     (Some [''code'' \<mapsto> Str ''ABC123'', ''status'' \<mapsto> Str ''accepted'']) registered) =
     CardUpdated ''Status updated successfully''
       (Some (CardObject \<lparr>code = ''ABC123'', status = ''accepted'',
          createdAt = ''2024-05-01T10:00:00.000Z'',
          updatedAt = Some ''2024-05-02T11:30:00.000Z'', price = None\<rparr>)) \<and>
   giftCards (fst (api_admin_cards_status env1
     (Some [''code'' \<mapsto> Str ''ABC123'', ''status'' \<mapsto> Str ''accepted'']) registered)) =
     [(''ABC123'', \<lparr>code = ''ABC123'', status = ''accepted'',
          createdAt = ''2024-05-01T10:00:00.000Z'',
          updatedAt = Some ''2024-05-02T11:30:00.000Z'', price = None\<rparr>)]"
  using set_status_registered [where c = "''ABC123''" and s = registered and e = env1
      and b = "[''code'' \<mapsto> Str ''ABC123'', ''status'' \<mapsto> Str ''shipped'']"
      and cd = "\<lparr>code = ''ABC123'', status = ''pending'',
          createdAt = ''2024-05-01T10:00:00.000Z'', updatedAt = None, price = None\<rparr>"]
    set_status_registered [where c = "''ABC123''" and s = registered and e = env1
      and b = "[''code'' \<mapsto> Str ''ABC123'', ''status'' \<mapsto> Str ''accepted'']"
      and cd = "\<lparr>code = ''ABC123'', status = ''pending'',
          createdAt = ''2024-05-01T10:00:00.000Z'', updatedAt = None, price = None\<rparr>"]
  by (simp add: registered_eq body_get_def statuses_def env1_def)

lemma priced_eq:
  "priced =
     \<lparr>giftCards = [(''ABC123'', \<lparr>code = ''ABC123'', status = ''pending'',
          createdAt = ''2024-05-01T10:00:00.000Z'', updatedAt = None, price = None\<rparr>)],
      currentPrice = Some \<lparr>amount = Number (Fin 10), currency = ''EUR'',
          price_updatedAt = ''2024-05-01T10:00:00.000Z''\<rparr>,
      objectPrototype = pristine,
      CARDS_FILE = Holds [(''ABC123'', \<lparr>code = ''ABC123'', status = ''pending'',
          createdAt = ''2024-05-01T10:00:00.000Z'', updatedAt = None, price = None\<rparr>)],
      PRICE_FILE = Holds (Some \<lparr>amount = Number (Fin 10), currency = ''EUR'',
          price_updatedAt = ''2024-05-01T10:00:00.000Z''\<rparr>)\<rparr>"
  by (simp add: priced_def registered_eq api_admin_price_def body_get_def env0_def
      Let_def saveData_def write_file_def json_cards_def json_card_def json_money_def)

lemma api_admin_price_giftCards: "giftCards (fst (api_admin_price e rb s)) = giftCards s"
  by (simp add: api_admin_price_def Let_def split: option.splits)

text \<open>
  C7. Let \<open>c\<close> be a registered code and the body's amount a non-negative number.
  The handler sets the price of the entry of \<open>c\<close> to that amount with the currency of
  the global price record, or \<open>USD\<close> when there is none, and its \<open>updatedAt\<close> to the
  time of the call; every other entry, the order of the keys and the global price
  stay; \<open>saveData\<close> runs; the answer carries the updated record. A later update of
  the global price, whatever its request, leaves the card map, so the currency stored
  in the card, as it is.
\<close>

theorem set_price_registered:
  fixes e :: env and s :: state and b :: body and c :: string and cd :: card and n :: jsnum
  defines "cur \<equiv> (case currentPrice s of Some p \<Rightarrow> currency p | None \<Rightarrow> ''USD'')"
  defines "s' \<equiv> fst (api_admin_cards_price e (Some b) s)"
  assumes nonempty: "c \<noteq> []" and sent: "b ''code'' = Some (Str c)"
    and registered: "map_of (giftCards s) c = Some cd"
    and amt: "b ''amount'' = Some (Num n)" and nonneg: "non_negative n"
  shows
  "api_admin_cards_price e (Some b) s =
     (saveData (writes e)
        (s\<lparr>giftCards :=
             AList.map_entry c
               (\<lambda>x. x\<lparr>price := Some \<lparr>amount = Number n, currency = cur\<rparr>,
                       updatedAt := Some (now e)\<rparr>) (giftCards s)\<rparr>),
      CardUpdated ''Price updated successfully''
        (Some (CardObject (cd\<lparr>price := Some \<lparr>amount = Number n, currency = cur\<rparr>,
                               updatedAt := Some (now e)\<rparr>)))) \<and>
   map_of (giftCards s') =
     (map_of (giftCards s))(c \<mapsto> cd\<lparr>price := Some \<lparr>amount = Number n, currency = cur\<rparr>,
                                      updatedAt := Some (now e)\<rparr>) \<and>
   map fst (giftCards s') = map fst (giftCards s) \<and>
   currentPrice s' = currentPrice s \<and>
   (writes e = (Written, Written) \<longrightarrow> CARDS_FILE s' = Holds (json_cards (giftCards s'))) \<and>
   (\<forall>e' rb. giftCards (fst (api_admin_price e' rb s')) = giftCards s')"
proof -
  let ?m = "\<lparr>amount = Number n, currency = cur\<rparr>"
  let ?cd = "cd\<lparr>price := Some ?m, updatedAt := Some (now e)\<rparr>"
  let ?s2 = "s\<lparr>giftCards :=
                AList.map_entry c (\<lambda>x. x\<lparr>price := Some ?m, updatedAt := Some (now e)\<rparr>) (giftCards s)\<rparr>"
  have code: "body_get s b ''code'' = Str c" and amount: "body_get s b ''amount'' = Num n"
    using sent amt by (simp_all add: body_get_def)
  have a1: "assign c (\<lambda>cd. cd\<lparr>price := Some ?m\<rparr>)
        (\<lambda>p. p\<lparr>proto_price := Some \<lparr>amount = Number n, currency = cur, added_status = None,
                                      added_updatedAt = None, added_price = None\<rparr>\<rparr>)
        (\<lambda>po. po\<lparr>added_price := Some ?m\<rparr>) s =
      Some (s\<lparr>giftCards := AList.map_entry c (\<lambda>cd. cd\<lparr>price := Some ?m\<rparr>) (giftCards s)\<rparr>)"
    using registered by (rule assign_own)
  have a2: "assign c (\<lambda>cd. cd\<lparr>updatedAt := Some (now e)\<rparr>) (\<lambda>p. p\<lparr>proto_updatedAt := Some (now e)\<rparr>)
        (\<lambda>po. po\<lparr>added_updatedAt := Some (now e)\<rparr>)
        (s\<lparr>giftCards := AList.map_entry c (\<lambda>cd. cd\<lparr>price := Some ?m\<rparr>) (giftCards s)\<rparr>) = Some ?s2"
    using registered
    by (subst assign_own [where cd = "cd\<lparr>price := Some ?m\<rparr>"])
      (simp_all add: map_of_map_entry map_entry_twice)
  have m: "map_of (AList.map_entry c (\<lambda>x. x\<lparr>price := Some ?m, updatedAt := Some (now e)\<rparr>) (giftCards s)) =
      (map_of (giftCards s))(c \<mapsto> ?cd)"
    using registered by (simp add: map_of_map_entry_own)
  have g: "get_prop (saveData (writes e) ?s2) c = Some (CardObject ?cd)"
    unfolding get_prop_saveData by (rule get_prop_own) (simp add: m)
  have run: "api_admin_cards_price e (Some b) s =
     (saveData (writes e) ?s2, CardUpdated ''Price updated successfully'' (Some (CardObject ?cd)))"
    using nonempty registered nonneg g a1 a2
    by (simp add: api_admin_cards_price_def code amount get_prop_own lt_zero_iff
        cur_def Let_def)
  then have s': "s' = saveData (writes e) ?s2"
    by (simp add: s'_def)
  have p1: "map_of (giftCards s') = (map_of (giftCards s))(c \<mapsto> ?cd)"
    by (simp add: s' m)
  have p2: "map fst (giftCards s') = map fst (giftCards s)"
    by (simp add: s' map_fst_map_entry)
  have p3: "currentPrice s' = currentPrice s"
    by (simp add: s')
  have p4: "writes e = (Written, Written) \<longrightarrow> CARDS_FILE s' = Holds (json_cards (giftCards s'))"
    by (simp add: s' saveData_written)
  have p5: "\<forall>e' rb. giftCards (fst (api_admin_price e' rb s')) = giftCards s'"
    by (simp add: api_admin_price_giftCards)
  from run p1 p2 p3 p4 p5 show ?thesis by blast
qed

theorem set_price_registered_witness:
  "snd (api_admin_cards_price env1
     (Some [''code'' \<mapsto> Str ''ABC123'', ''amount'' \<mapsto> Num (Fin 25)]) registered) =
     CardUpdated ''Price updated successfully''
       (Some (CardObject \<lparr>code = ''ABC123'', status = ''pending'',
          createdAt = ''2024-05-01T10:00:00.000Z'',
          updatedAt = Some ''2024-05-02T11:30:00.000Z'',
          price = Some \<lparr>amount = Number (Fin 25), currency = ''USD''\<rparr>\<rparr>)) \<and>
   giftCards (fst (api_admin_cards_price env1
     (Some [''code'' \<mapsto> Str ''ABC123'', ''amount'' \<mapsto> Num (Fin 25)]) registered)) =
     [(''ABC123'', \<lparr>code = ''ABC123'', status = ''pending'',
          createdAt = ''2024-05-01T10:00:00.000Z'',
          updatedAt = Some ''2024-05-02T11:30:00.000Z'',
          price = Some \<lparr>amount = Number (Fin 25), currency = ''USD''\<rparr>\<rparr>)] \<and>
   giftCards (fst (api_admin_cards_price env1
     (Some [''code'' \<mapsto> Str ''ABC123'', ''amount'' \<mapsto> Num (Fin 25)]) priced)) =
     [(''ABC123'', \<lparr>code = ''ABC123'', status = ''pending'',
          createdAt = ''2024-05-01T10:00:00.000Z'',
          updatedAt = Some ''2024-05-02T11:30:00.000Z'',
          price = Some \<lparr>amount = Number (Fin 25), currency = ''EUR''\<rparr>\<rparr>)] \<and>
   giftCards (fst (api_admin_price env1
       (Some [''amount'' \<mapsto> Num (Fin 12), ''currency'' \<mapsto> Str ''GBP''])
       (fst (api_admin_cards_price env1
          (Some [''code'' \<mapsto> Str ''ABC123'', ''amount'' \<mapsto> Num (Fin 25)]) priced)))) =
     [(''ABC123'', \<lparr>code = ''ABC123'', status = ''pending'',
          createdAt = ''2024-05-01T10:00:00.000Z'',
          updatedAt = Some ''2024-05-02T11:30:00.000Z'',
          price = Some \<lparr>amount = Number (Fin 25), currency = ''EUR''\<rparr>\<rparr>)]"
  using set_price_registered [where c = "''ABC123''" and s = registered and e = env1
      and b = "[''code'' \<mapsto> Str ''ABC123'', ''amount'' \<mapsto> Num (Fin 25)]" and n = "Fin 25"
      and cd = "\<lparr>code = ''ABC123'', status = ''pending'',
          createdAt = ''2024-05-01T10:00:00.000Z'', updatedAt = None, price = None\<rparr>"]
    set_price_registered [where c = "''ABC123''" and s = priced and e = env1
      and b = "[''code'' \<mapsto> Str ''ABC123'', ''amount'' \<mapsto> Num (Fin 25)]" and n = "Fin 25"
      and cd = "\<lparr>code = ''ABC123'', status = ''pending'',
          createdAt = ''2024-05-01T10:00:00.000Z'', updatedAt = None, price = None\<rparr>"]
  by (simp add: registered_eq priced_eq env1_def api_admin_price_giftCards)

subsection \<open>The invariant of the card map, and the statistics\<close>

text \<open>Every handler, every restart and every flush keeps \<open>state_ok\<close>: in memory and
  in the cards file, each key is a well-formed code and each status is one of the
  three.\<close>

lemma set_update_subset: "set (AList.update k v xs) \<subseteq> insert (k, v) (set xs)"
  by (induction xs) auto

lemma set_insert_index_subset: "set (insert_index k v xs) \<subseteq> insert (k, v) (set xs)"
  by (induction xs) (auto split: if_splits)

lemma set_define_property: "set (define_property k v xs) \<subseteq> insert (k, v) (set xs)"
  by (simp add: define_property_def set_update_subset set_insert_index_subset)

lemma cards_ok_define_property:
  assumes "cards_ok xs" and "regex_test k" and "status v \<in> set statuses"
  shows "cards_ok (define_property k v xs)"
  using assms set_define_property [of k v xs]
  unfolding cards_ok_def list_all_iff by blast

lemma cards_ok_map_entry:
  assumes "cards_ok xs" and "\<And>c. status c \<in> set statuses \<Longrightarrow> status (f c) \<in> set statuses"
  shows "cards_ok (AList.map_entry k f xs)"
  using assms by (induction xs) (auto simp: cards_ok_def)

lemma cards_ok_json_cards: "cards_ok (json_cards xs) = cards_ok xs"
  by (induction xs) (auto simp: cards_ok_def json_cards_def json_card_def)

lemma state_ok_saveData: "state_ok s \<Longrightarrow> state_ok (saveData w s)"
  by (cases "fst w")
    (auto simp: state_ok_def saveData_def Let_def write_file_def cards_ok_json_cards
      split: json_file.splits)

lemma state_ok_assign:
  assumes "state_ok s" and "assign k f g h s = Some s'"
    and "\<And>c. status c \<in> set statuses \<Longrightarrow> status (f c) \<in> set statuses"
  shows "state_ok s'"
  using assms
  by (auto simp: assign_def state_ok_def cards_ok_map_entry split: option.splits ref.splits)

lemma state_ok_startServer: "state_ok s \<Longrightarrow> state_ok (startServer (CARDS_FILE s) (PRICE_FILE s))"
  by (auto simp: state_ok_def startServer_def loadData_def Let_def cards_ok_def
      split: json_file.splits)

lemma state_ok_first_start: "state_ok (startServer Missing Missing)"
  by (simp add: state_ok_def startServer_def loadData_def Let_def cards_ok_def)

lemma state_ok_validate: "state_ok s \<Longrightarrow> state_ok (fst (api_validate e rb s))"
proof (cases rb)
  case None
  assume "state_ok s" with None show ?thesis by (simp add: api_validate_def)
next
  case (Some b)
  assume ok: "state_ok s"
  have new: "regex_test k \<Longrightarrow>
      state_ok (s\<lparr>giftCards := define_property k
          \<lparr>code = k, status = ''pending'', createdAt = now e, updatedAt = None, price = None\<rparr>
          (giftCards s)\<rparr>)" for k
    using ok by (simp add: state_ok_def cards_ok_define_property statuses_def)
  show ?thesis
    using ok new Some
    by (simp add: api_validate_def Let_def state_ok_saveData)
qed

lemma state_ok_admin_price: "state_ok s \<Longrightarrow> state_ok (fst (api_admin_price e rb s))"
proof -
  assume ok: "state_ok s"
  have "state_ok (s\<lparr>currentPrice := p\<rparr>)" for p
    using ok by (simp add: state_ok_def)
  then show ?thesis
    using ok by (simp add: api_admin_price_def Let_def state_ok_saveData split: option.splits)
qed

lemma includes_str_of:
  "array_includes [''pending'', ''accepted'', ''declined''] v \<Longrightarrow> str_of v \<in> set statuses"
  by (cases v) (auto simp: statuses_def)

lemma state_ok_cards_status: "state_ok s \<Longrightarrow> state_ok (fst (api_admin_cards_status e rb s))"
proof -
  assume ok: "state_ok s"
  have step: "state_ok (fst (case assign k (\<lambda>cd. cd\<lparr>status := v\<rparr>) g g' s of
                 None \<Rightarrow> (s, r0)
               | Some s1 \<Rightarrow>
                   (case assign k (\<lambda>cd. cd\<lparr>updatedAt := t\<rparr>) h h' s1 of
                      None \<Rightarrow> (s1, r1)
                    | Some s2 \<Rightarrow> let s3 = saveData w s2 in (s3, r2 s3))))"
    if "v \<in> set statuses" for k v g g' h h' t w r0 r1 r2
  proof (cases "assign k (\<lambda>cd. cd\<lparr>status := v\<rparr>) g g' s")
    case None
    with ok show ?thesis by simp
  next
    case (Some s1)
    then have ok1: "state_ok s1" using ok that by (auto elim!: state_ok_assign)
    show ?thesis
    proof (cases "assign k (\<lambda>cd. cd\<lparr>updatedAt := t\<rparr>) h h' s1")
      case None
      with Some ok1 show ?thesis by simp
    next
      case s2: (Some s2)
      then have "state_ok s2" using ok1 by (auto elim!: state_ok_assign)
      with Some s2 show ?thesis by (simp add: Let_def state_ok_saveData)
    qed
  qed
  show ?thesis
    using ok
    by (simp add: api_admin_cards_status_def Let_def step includes_str_of
        split: option.splits)
qed

lemma state_ok_cards_price: "state_ok s \<Longrightarrow> state_ok (fst (api_admin_cards_price e rb s))"
proof -
  assume ok: "state_ok s"
  have step: "state_ok (fst (case assign k (\<lambda>cd. cd\<lparr>price := m\<rparr>) g g' s of
                 None \<Rightarrow> (s, r0)
               | Some s1 \<Rightarrow>
                   (case assign k (\<lambda>cd. cd\<lparr>updatedAt := t\<rparr>) h h' s1 of
                      None \<Rightarrow> (s1, r1)
                    | Some s2 \<Rightarrow> let s3 = saveData w s2 in (s3, r2 s3))))"
    for k m g g' h h' t w r0 r1 r2
  proof (cases "assign k (\<lambda>cd. cd\<lparr>price := m\<rparr>) g g' s")
    case None
    with ok show ?thesis by simp
  next
    case (Some s1)
    then have ok1: "state_ok s1" using ok by (auto elim!: state_ok_assign)
    show ?thesis
    proof (cases "assign k (\<lambda>cd. cd\<lparr>updatedAt := t\<rparr>) h h' s1")
      case None
      with Some ok1 show ?thesis by simp
    next
      case s2: (Some s2)
      then have "state_ok s2" using ok1 by (auto elim!: state_ok_assign)
      with Some s2 show ?thesis by (simp add: Let_def state_ok_saveData)
    qed
  qed
  show ?thesis
    using ok
    by (simp add: api_admin_cards_price_def Let_def step split: option.splits)
qed

lemma state_ok_authenticate:
  "state_ok s \<Longrightarrow> state_ok (fst x) \<Longrightarrow> state_ok (fst (authenticate cfg rb s x))"
  by (simp add: authenticate_def split: option.splits)

lemma state_ok_handle: "state_ok s \<Longrightarrow> state_ok (fst (handle cfg e r rb s))"
  by (cases r)
    (simp_all add: handle_def state_ok_authenticate state_ok_validate state_ok_admin_price
      state_ok_cards_status state_ok_cards_price)

lemma reachable_state_ok: "reachable cfg s \<Longrightarrow> state_ok s"
  by (induction rule: reachable.induct)
    (simp_all add: state_ok_first_start state_ok_handle state_ok_startServer state_ok_saveData)

lemma count_by_status:
  "list_all (\<lambda>c. status c \<in> set statuses) cs \<Longrightarrow>
   length cs =
     length (filter (\<lambda>card. status card = ''accepted'') cs) +
     length (filter (\<lambda>card. status card = ''declined'') cs) +
     length (filter (\<lambda>card. status card = ''pending'') cs)"
  by (induction cs) (auto simp: statuses_def)

lemma length_filter_count_list:
  "length (filter (\<lambda>x. f x = v) xs) = count_list (map f xs) v"
  by (induction xs) auto

lemma regex_test_examples: "regex_test ''B2''" "regex_test ''C3''" "regex_test ''D4''"
  by (simp_all add: regex_test_def char_class_def)

lemma four_cards_eq:
  "giftCards four_cards =
     [(''ABC123'', \<lparr>code = ''ABC123'', status = ''pending'',
          createdAt = ''2024-05-01T10:00:00.000Z'', updatedAt = None, price = None\<rparr>),
      (''B2'', \<lparr>code = ''B2'', status = ''pending'',
          createdAt = ''2024-05-01T10:00:00.000Z'', updatedAt = None, price = None\<rparr>),
      (''C3'', \<lparr>code = ''C3'', status = ''pending'',
          createdAt = ''2024-05-01T10:00:00.000Z'', updatedAt = None, price = None\<rparr>),
      (''D4'', \<lparr>code = ''D4'', status = ''pending'',
          createdAt = ''2024-05-01T10:00:00.000Z'', updatedAt = None, price = None\<rparr>)]"
  using regex_test_ABC123 regex_test_examples
  by (simp add: four_cards_def handle_def api_validate_def body_get_def get_prop_code fresh_eq
      env0_def Let_def define_property_def is_array_index_def)

lemma mixed_eq:
  "giftCards mixed =
     [(''ABC123'', \<lparr>code = ''ABC123'', status = ''accepted'',
          createdAt = ''2024-05-01T10:00:00.000Z'',
          updatedAt = Some ''2024-05-02T11:30:00.000Z'', price = None\<rparr>),
      (''B2'', \<lparr>code = ''B2'', status = ''declined'',
          createdAt = ''2024-05-01T10:00:00.000Z'',
          updatedAt = Some ''2024-05-02T11:30:00.000Z'', price = None\<rparr>),
      (''C3'', \<lparr>code = ''C3'', status = ''pending'',
          createdAt = ''2024-05-01T10:00:00.000Z'', updatedAt = None, price = None\<rparr>),
      (''D4'', \<lparr>code = ''D4'', status = ''pending'',
          createdAt = ''2024-05-01T10:00:00.000Z'', updatedAt = None, price = None\<rparr>)]"
  by (simp add: mixed_def handle_def authenticate_def cfg0_def api_admin_cards_status_def
      body_get_def get_prop_def assign_def four_cards_eq env1_def Let_def)

lemma reachable_mixed: "reachable cfg0 mixed"
  unfolding mixed_def four_cards_def fresh_def
  by (intro reachable.request reachable.first_start)

text \<open>
  C3. In every reachable state the statistics satisfy
  \<open>total = accepted + declined + pending\<close>, where \<open>total\<close> is the number of records
  and each summand is the number of records whose status is exactly that string (the
  number of times the string occurs in the list of the records' statuses); and the
  stats route leaves the state, files included, as it is.
\<close>

theorem stats_total_is_sum:
  assumes "reachable cfg s"
  shows "total_count (api_admin_stats s) =
           accepted (api_admin_stats s) + declined (api_admin_stats s) + pending (api_admin_stats s) \<and>
         total_count (api_admin_stats s) = length (giftCards s) \<and>
         accepted (api_admin_stats s) =
           count_list (map (\<lambda>(k, c). status c) (giftCards s)) ''accepted'' \<and>
         declined (api_admin_stats s) =
           count_list (map (\<lambda>(k, c). status c) (giftCards s)) ''declined'' \<and>
         pending (api_admin_stats s) =
           count_list (map (\<lambda>(k, c). status c) (giftCards s)) ''pending'' \<and>
         fst (handle cfg e POST_admin_stats rb s) = s"
proof -
  from assms have "state_ok s" by (rule reachable_state_ok)
  then have "list_all (\<lambda>c. status c \<in> set statuses) (map snd (giftCards s))"
    by (auto simp: state_ok_def cards_ok_def list_all_iff)
  from count_by_status [OF this]
  have sum: "total_count (api_admin_stats s) =
      accepted (api_admin_stats s) + declined (api_admin_stats s) + pending (api_admin_stats s)"
    by (simp add: api_admin_stats_def Let_def)
  have total: "total_count (api_admin_stats s) = length (giftCards s)"
    by (simp add: api_admin_stats_def Let_def)
  have proj: "map (\<lambda>(k, c). status c) (giftCards s) = map status (map snd (giftCards s))"
    by (simp add: case_prod_unfold)
  have each: "accepted (api_admin_stats s) =
        count_list (map (\<lambda>(k, c). status c) (giftCards s)) ''accepted''"
      "declined (api_admin_stats s) =
        count_list (map (\<lambda>(k, c). status c) (giftCards s)) ''declined''"
      "pending (api_admin_stats s) =
        count_list (map (\<lambda>(k, c). status c) (giftCards s)) ''pending''"
    unfolding proj by (simp_all add: api_admin_stats_def Let_def length_filter_count_list)
  have pure: "fst (handle cfg e POST_admin_stats rb s) = s"
    by (simp add: handle_def authenticate_def split: option.splits)
  from sum total each pure show ?thesis by blast
qed

theorem stats_total_is_sum_witness:
  "reachable cfg0 mixed \<and>
   map (\<lambda>(k, c). status c) (giftCards mixed) = [''accepted'', ''declined'', ''pending'', ''pending''] \<and>
   api_admin_stats mixed = \<lparr>total_count = 4, accepted = 1, declined = 1, pending = 2\<rparr>"
  using stats_total_is_sum [OF reachable_mixed, of env0 None] reachable_mixed
  by (simp add: api_admin_stats_def mixed_eq)

text \<open>The invariant is one of the service's own states. A cards file written by
  something else can hold any status, and after a start on such a file the three
  counts no longer add up to the total.\<close>

lemma foreign_cards_file:
  "api_admin_stats
     (startServer
        (Holds [(''X1'', \<lparr>code = ''X1'', status = ''expired'', createdAt = ''2024-01-01T00:00:00.000Z'',
                          updatedAt = None, price = None\<rparr>)])
        Missing) =
   \<lparr>total_count = 1, accepted = 0, declined = 0, pending = 0\<rparr>"
  by (simp add: api_admin_stats_def startServer_def loadData_def Let_def)

subsection \<open>Codes that are names of inherited properties\<close>

text \<open>When the key resolves to nothing, neither to an entry of the card map nor to a
  property of \<open>Object.prototype\<close>, both handlers answer 404 before they look at the
  status or the amount, and the state is what it was.\<close>

lemma unresolved_is_404:
  assumes "b ''code'' = Some (Str c)" and "get_prop s c = None"
  shows "api_admin_cards_status e (Some b) s = (s, Failure 404 ''Gift card not found'')"
    and "api_admin_cards_price e (Some b) s = (s, Failure 404 ''Gift card not found'')"
  using assms
  by (simp_all add: api_admin_cards_status_def api_admin_cards_price_def body_get_def Let_def)

text \<open>
  C6, at a failing input. \<open>constructor\<close> is not a registered code, yet
  \<open>giftCards['constructor']\<close> is the function \<open>Object\<close>, inherited from
  \<open>Object.prototype\<close>, so \<open>!giftCards[code]\<close> is false: both handlers go on, write
  their properties on that function, run \<open>saveData\<close> and answer 200 where the
  specification says 404. With \<open>__proto__\<close> the write lands on \<open>Object.prototype\<close> itself.
\<close>

theorem unregistered_inherited_name_not_404:
  "map_of (giftCards registered) ''constructor'' = None \<and>
   api_admin_cards_status env1
     (Some [''code'' \<mapsto> Str ''constructor'', ''status'' \<mapsto> Str ''accepted'']) registered =
     (saveData (Written, Written) registered,
      CardUpdated ''Status updated successfully'' (Some (BuiltinFunction ''constructor''))) \<and>
   api_admin_cards_price env1
     (Some [''code'' \<mapsto> Str ''constructor'', ''amount'' \<mapsto> Num (Fin 5)]) registered =
     (saveData (Written, Written) registered,
      CardUpdated ''Price updated successfully'' (Some (BuiltinFunction ''constructor''))) \<and>
   api_admin_cards_status env1
     (Some [''code'' \<mapsto> Str ''__proto__'', ''status'' \<mapsto> Str ''accepted'']) registered =
     (saveData (Written, Written)
        (registered\<lparr>objectPrototype :=
           \<lparr>proto_status = Some ''accepted'',
            proto_updatedAt = Some ''2024-05-02T11:30:00.000Z'', proto_price = None\<rparr>\<rparr>),
      CardUpdated ''Status updated successfully'' (Some TheObjectPrototype))"
  by (simp add: registered_eq api_admin_cards_status_def api_admin_cards_price_def body_get_def
      get_prop_def assign_def Object_prototype_methods_def env1_def Let_def pristine_def)

theorem unregistered_inherited_name_not_404_witness:
  "snd (api_admin_cards_status env1
     (Some [''code'' \<mapsto> Str ''constructor'', ''status'' \<mapsto> Str ''accepted'']) registered) \<noteq>
     Failure 404 ''Gift card not found'' \<and>
   snd (api_admin_cards_price env1
     (Some [''code'' \<mapsto> Str ''constructor'', ''amount'' \<mapsto> Num (Fin 5)]) registered) \<noteq>
     Failure 404 ''Gift card not found'' \<and>
   proto_status (objectPrototype (fst (api_admin_cards_status env1
     (Some [''code'' \<mapsto> Str ''__proto__'', ''status'' \<mapsto> Str ''accepted'']) registered))) =
     Some ''accepted''"
  using unregistered_inherited_name_not_404 by simp

text \<open>
  C10, at a failing input. For the unregistered code \<open>constructor\<close> the existence
  check is passed as above, and an invalid status or amount is then answered with 400:
  a 400 for a code that is not registered, where the specification says 404.
\<close>

theorem unregistered_inherited_name_400:
  "map_of (giftCards registered) ''constructor'' = None \<and>
   api_admin_cards_status env1
     (Some [''code'' \<mapsto> Str ''constructor'', ''status'' \<mapsto> Str ''shipped'']) registered =
     (registered, Failure 400 ''Invalid status'') \<and>
   api_admin_cards_price env1
     (Some [''code'' \<mapsto> Str ''constructor'', ''amount'' \<mapsto> Num (Fin (-1))]) registered =
     (registered, Failure 400 ''Invalid price amount'')"
  by (simp add: registered_eq api_admin_cards_status_def api_admin_cards_price_def body_get_def
      get_prop_def Object_prototype_methods_def env1_def Let_def)

theorem unregistered_inherited_name_400_witness:
  "snd (api_admin_cards_status env1
     (Some [''code'' \<mapsto> Str ''constructor'', ''status'' \<mapsto> Str ''shipped'']) registered) \<noteq>
     Failure 404 ''Gift card not found'' \<and>
   snd (api_admin_cards_price env1
     (Some [''code'' \<mapsto> Str ''constructor'', ''amount'' \<mapsto> Num (Fin (-1))]) registered) \<noteq>
     Failure 404 ''Gift card not found''"
  using unregistered_inherited_name_400 by simp

text \<open>The price object of the prototype is written like any other object the lookup
  finds: after a price request for \<open>__proto__\<close>, a status request for the code
  \<open>price\<close> puts \<open>status\<close> and \<open>updatedAt\<close> on it, and the answer shows them.\<close>

lemma prototype_price_object_is_written:
  "snd (api_admin_cards_status env1
          (Some [''code'' \<mapsto> Str ''price'', ''status'' \<mapsto> Str ''declined''])
          (fst (api_admin_cards_price env0
                  (Some [''code'' \<mapsto> Str ''__proto__'', ''amount'' \<mapsto> Num (Fin 5)]) registered))) =
   CardUpdated ''Status updated successfully''
     (Some (PrototypePrice
        \<lparr>amount = Number (Fin 5), currency = ''USD'', added_status = Some ''declined'',
         added_updatedAt = Some ''2024-05-02T11:30:00.000Z'', added_price = None\<rparr>))"
  by (simp add: api_admin_cards_status_def api_admin_cards_price_def body_get_def get_prop_def
      assign_def registered_eq env0_def env1_def Let_def pristine_def
      Object_prototype_methods_def)

lemma polluted_eq:
  "polluted = registered\<lparr>objectPrototype :=
       \<lparr>proto_status = Some ''accepted'',
        proto_updatedAt = Some ''2024-05-01T10:00:00.000Z'', proto_price = None\<rparr>\<rparr>"
  by (simp add: polluted_def handle_def authenticate_def cfg0_def api_admin_cards_status_def
      body_get_def get_prop_def assign_def registered_eq env0_def Let_def pristine_def
      Object_prototype_methods_def saveData_def write_file_def json_cards_def json_card_def)

lemma reachable_polluted: "reachable cfg0 polluted"
  unfolding polluted_def
  using reachable.request [OF reachable.first_start, of cfg0 env0 POST_validate "Some [''code'' \<mapsto> Str ''ABC123'']"]
  by (intro reachable.request) (simp add: handle_def registered_def fresh_def)

text \<open>
  C5, at a failing input. The administrator first sends
  \<open>{code: '__proto__', status: 'accepted'}\<close>: the existence check is passed as for
  \<open>constructor\<close>, and the two assignments put \<open>status\<close> and \<open>updatedAt\<close> on
  \<open>Object.prototype\<close>. A later request for the registered code \<open>ABC123\<close> whose body
  has no status at all, so a status outside the three, reads \<open>status\<close> from
  \<open>Object.prototype\<close> through the destructuring: it is answered 200, not 400, and
  the card goes from pending to accepted.
\<close>

theorem absent_status_accepted_after_proto_write:
  "reachable cfg0 polluted \<and>
   giftCards polluted =
     [(''ABC123'', \<lparr>code = ''ABC123'', status = ''pending'',
          createdAt = ''2024-05-01T10:00:00.000Z'', updatedAt = None, price = None\<rparr>)] \<and>
   handle cfg0 env1 POST_admin_cards_status
     (Some [''username'' \<mapsto> Str ''admin'', ''password'' \<mapsto> Str ''admin123'',
            ''code'' \<mapsto> Str ''ABC123'']) polluted =
     (saveData (Written, Written)
        (polluted\<lparr>giftCards :=
           [(''ABC123'', \<lparr>code = ''ABC123'', status = ''accepted'',
               createdAt = ''2024-05-01T10:00:00.000Z'',
               updatedAt = Some ''2024-05-02T11:30:00.000Z'', price = None\<rparr>)]\<rparr>),
      CardUpdated ''Status updated successfully''
        (Some (CardObject \<lparr>code = ''ABC123'', status = ''accepted'',
               createdAt = ''2024-05-01T10:00:00.000Z'',
               updatedAt = Some ''2024-05-02T11:30:00.000Z'', price = None\<rparr>)))"
  using reachable_polluted
  by (simp add: polluted_eq handle_def authenticate_def cfg0_def api_admin_cards_status_def
      body_get_def get_prop_def assign_def registered_eq env1_def Let_def)

theorem absent_status_accepted_after_proto_write_witness:
  "snd (handle cfg0 env1 POST_admin_cards_status
     (Some [''username'' \<mapsto> Str ''admin'', ''password'' \<mapsto> Str ''admin123'',
            ''code'' \<mapsto> Str ''ABC123'']) polluted) \<noteq> Failure 400 ''Invalid status'' \<and>
   map (\<lambda>(k, c). status c) (giftCards (fst (handle cfg0 env1 POST_admin_cards_status
     (Some [''username'' \<mapsto> Str ''admin'', ''password'' \<mapsto> Str ''admin123'',
            ''code'' \<mapsto> Str ''ABC123'']) polluted))) = [''accepted'']"
  using absent_status_accepted_after_proto_write by simp

subsection \<open>Exceptions and failed writes\<close>

lemma ToPropertyKey_writes [simp]: "ToPropertyKey (e\<lparr>writes := w\<rparr>) c = ToPropertyKey e c"
  by (cases c) simp_all

lemma validate_answer_writes:
  "snd (api_validate (e\<lparr>writes := w\<rparr>) rb s) = snd (api_validate e rb s)"
  "giftCards (fst (api_validate (e\<lparr>writes := w\<rparr>) rb s)) = giftCards (fst (api_validate e rb s))"
  "currentPrice (fst (api_validate (e\<lparr>writes := w\<rparr>) rb s)) = currentPrice (fst (api_validate e rb s))"
  by (simp_all add: api_validate_def Let_def split: option.splits)

lemma admin_price_answer_writes:
  "snd (api_admin_price (e\<lparr>writes := w\<rparr>) rb s) = snd (api_admin_price e rb s)"
  "giftCards (fst (api_admin_price (e\<lparr>writes := w\<rparr>) rb s)) = giftCards (fst (api_admin_price e rb s))"
  "currentPrice (fst (api_admin_price (e\<lparr>writes := w\<rparr>) rb s)) = currentPrice (fst (api_admin_price e rb s))"
  by (simp_all add: api_admin_price_def Let_def split: option.splits)

lemma cards_status_answer_writes:
  "snd (api_admin_cards_status (e\<lparr>writes := w\<rparr>) rb s) = snd (api_admin_cards_status e rb s)"
  "giftCards (fst (api_admin_cards_status (e\<lparr>writes := w\<rparr>) rb s)) = giftCards (fst (api_admin_cards_status e rb s))"
  "currentPrice (fst (api_admin_cards_status (e\<lparr>writes := w\<rparr>) rb s)) = currentPrice (fst (api_admin_cards_status e rb s))"
  by (simp_all add: api_admin_cards_status_def Let_def split: option.splits)

lemma cards_price_answer_writes:
  "snd (api_admin_cards_price (e\<lparr>writes := w\<rparr>) rb s) = snd (api_admin_cards_price e rb s)"
  "giftCards (fst (api_admin_cards_price (e\<lparr>writes := w\<rparr>) rb s)) = giftCards (fst (api_admin_cards_price e rb s))"
  "currentPrice (fst (api_admin_cards_price (e\<lparr>writes := w\<rparr>) rb s)) = currentPrice (fst (api_admin_cards_price e rb s))"
  by (simp_all add: api_admin_cards_price_def Let_def split: option.splits)

text \<open>
  C8, refuted as stated. On a fresh service whose disk fails the first write, a
  validate request and a price update both answer with their success payload, not
  with 500: the mutation is in memory, the cards file is left truncated and the
  price file was never written.
\<close>

theorem flush_failure_reports_success:
  "api_validate env_disk_full (Some [''code'' \<mapsto> Str ''ABC123'']) fresh =
     (\<lparr>giftCards = [(''ABC123'', \<lparr>code = ''ABC123'', status = ''pending'',
          createdAt = ''2024-05-01T10:00:00.000Z'', updatedAt = None, price = None\<rparr>)],
       currentPrice = None, objectPrototype = pristine,
       CARDS_FILE = Unreadable, PRICE_FILE = Missing\<rparr>,
      ValidateOk (Some (CardObject \<lparr>code = ''ABC123'', status = ''pending'',
          createdAt = ''2024-05-01T10:00:00.000Z'', updatedAt = None, price = None\<rparr>)) None) \<and>
   snd (api_validate env_disk_full (Some [''code'' \<mapsto> Str ''ABC123'']) fresh) \<noteq>
     Failure 500 ''Internal server error'' \<and>
   api_admin_price env_disk_full
     (Some [''amount'' \<mapsto> Num (Fin 10), ''currency'' \<mapsto> Str ''EUR'']) fresh =
     (\<lparr>giftCards = [],
       currentPrice = Some \<lparr>amount = Number (Fin 10), currency = ''EUR'',
          price_updatedAt = ''2024-05-01T10:00:00.000Z''\<rparr>,
       objectPrototype = pristine, CARDS_FILE = Unreadable, PRICE_FILE = Missing\<rparr>,
      PriceUpdated (Some \<lparr>amount = Number (Fin 10), currency = ''EUR'',
          price_updatedAt = ''2024-05-01T10:00:00.000Z''\<rparr>))"
  using regex_test_ABC123
  by (simp add: api_validate_def api_admin_price_def body_get_def get_prop_code fresh_eq
      env_disk_full_def Let_def saveData_def write_file_def define_property_def
      is_array_index_def)

text \<open>
  C8, as the code has it. An exception thrown while a handler runs is answered with
  the generic 500 \<open>Internal server error\<close> and nothing else: so for a request without
  a parsed body, in all four handlers, and for a code whose conversion to a property
  key throws, in the two card handlers; the state is then what it was. A failed write
  is not such an exception: \<open>saveData\<close> catches and logs it, so the answer of each
  handler and the card map and price it leaves in memory do not depend on the outcome
  of the writes at all.
\<close>

theorem exceptions_are_500_flush_failures_are_not:
  fixes e :: env and s :: state and w :: "write_outcome \<times> write_outcome"
  shows
  "api_validate e None s = (s, Failure 500 ''Internal server error'') \<and>
   api_admin_price e None s = (s, Failure 500 ''Internal server error'') \<and>
   api_admin_cards_status e None s = (s, Failure 500 ''Internal server error'') \<and>
   api_admin_cards_price e None s = (s, Failure 500 ''Internal server error'') \<and>
   (\<forall>b c. b ''code'' = Some c \<and> truthy c \<and> ToPropertyKey e c = None \<longrightarrow>
      api_admin_cards_status e (Some b) s = (s, Failure 500 ''Internal server error'') \<and>
      api_admin_cards_price e (Some b) s = (s, Failure 500 ''Internal server error'')) \<and>
   (\<forall>rb.
      snd (api_validate (e\<lparr>writes := w\<rparr>) rb s) = snd (api_validate e rb s) \<and>
      giftCards (fst (api_validate (e\<lparr>writes := w\<rparr>) rb s)) = giftCards (fst (api_validate e rb s)) \<and>
      snd (api_admin_price (e\<lparr>writes := w\<rparr>) rb s) = snd (api_admin_price e rb s) \<and>
      currentPrice (fst (api_admin_price (e\<lparr>writes := w\<rparr>) rb s)) =
        currentPrice (fst (api_admin_price e rb s)) \<and>
      snd (api_admin_cards_status (e\<lparr>writes := w\<rparr>) rb s) = snd (api_admin_cards_status e rb s) \<and>
      giftCards (fst (api_admin_cards_status (e\<lparr>writes := w\<rparr>) rb s)) =
        giftCards (fst (api_admin_cards_status e rb s)) \<and>
      snd (api_admin_cards_price (e\<lparr>writes := w\<rparr>) rb s) = snd (api_admin_cards_price e rb s) \<and>
      giftCards (fst (api_admin_cards_price (e\<lparr>writes := w\<rparr>) rb s)) =
        giftCards (fst (api_admin_cards_price e rb s)))"
proof -
  have none: "api_validate e None s = (s, Failure 500 ''Internal server error'')"
    "api_admin_price e None s = (s, Failure 500 ''Internal server error'')"
    "api_admin_cards_status e None s = (s, Failure 500 ''Internal server error'')"
    "api_admin_cards_price e None s = (s, Failure 500 ''Internal server error'')"
    by (simp_all add: api_validate_def api_admin_price_def api_admin_cards_status_def
        api_admin_cards_price_def)
  have key: "api_admin_cards_status e (Some b) s = (s, Failure 500 ''Internal server error'') \<and>
      api_admin_cards_price e (Some b) s = (s, Failure 500 ''Internal server error'')"
    if "b ''code'' = Some c \<and> truthy c \<and> ToPropertyKey e c = None" for b c
    using that
    by (simp add: api_admin_cards_status_def api_admin_cards_price_def body_get_def Let_def)
  have indep: "\<forall>rb.
      snd (api_validate (e\<lparr>writes := w\<rparr>) rb s) = snd (api_validate e rb s) \<and>
      giftCards (fst (api_validate (e\<lparr>writes := w\<rparr>) rb s)) = giftCards (fst (api_validate e rb s)) \<and>
      snd (api_admin_price (e\<lparr>writes := w\<rparr>) rb s) = snd (api_admin_price e rb s) \<and>
      currentPrice (fst (api_admin_price (e\<lparr>writes := w\<rparr>) rb s)) =
        currentPrice (fst (api_admin_price e rb s)) \<and>
      snd (api_admin_cards_status (e\<lparr>writes := w\<rparr>) rb s) = snd (api_admin_cards_status e rb s) \<and>
      giftCards (fst (api_admin_cards_status (e\<lparr>writes := w\<rparr>) rb s)) =
        giftCards (fst (api_admin_cards_status e rb s)) \<and>
      snd (api_admin_cards_price (e\<lparr>writes := w\<rparr>) rb s) = snd (api_admin_cards_price e rb s) \<and>
      giftCards (fst (api_admin_cards_price (e\<lparr>writes := w\<rparr>) rb s)) =
        giftCards (fst (api_admin_cards_price e rb s))"
    by (simp add: validate_answer_writes admin_price_answer_writes cards_status_answer_writes
        cards_price_answer_writes)
  from none key indep show ?thesis by blast
qed

theorem exceptions_are_500_flush_failures_are_not_witness:
  "truthy unprintable \<and> ToPropertyKey env0 unprintable = None \<and>
   api_admin_cards_status env0
     (Some [''code'' \<mapsto> unprintable, ''status'' \<mapsto> Str ''accepted'']) registered =
     (registered, Failure 500 ''Internal server error'') \<and>
   api_admin_cards_price env0
     (Some [''code'' \<mapsto> unprintable, ''amount'' \<mapsto> Num (Fin 5)]) registered =
     (registered, Failure 500 ''Internal server error'') \<and>
   api_validate env0 None registered = (registered, Failure 500 ''Internal server error'')"
  using exceptions_are_500_flush_failures_are_not [of env0 registered "(Written, Written)"]
  by (simp add: unprintable_def env0_def)

lemma json_amount_id: "representable a \<Longrightarrow> json_amount a = a"
  by (induction a rule: representable.induct) simp_all

lemma json_cards_id:
  "list_all (\<lambda>(k, c). representable_card c) xs \<Longrightarrow> json_cards xs = xs"
  by (induction xs)
    (auto simp: json_cards_def json_card_def json_money_def representable_card_def
      json_amount_id split: option.splits)

lemma json_price_id:
  "(case p of None \<Rightarrow> True | Some r \<Rightarrow> representable (amount r)) \<Longrightarrow>
   map_option json_money p = p"
  by (cases p) (simp_all add: json_money_def json_amount_id)

subsection \<open>Flush and reload\<close>

text \<open>
  C9, refuted as stated. After the global price was set with an infinite amount, a
  flush whose writes succeed followed by a startup load gives a price record whose
  amount is null, not the one in memory. And after a flush whose first write fails,
  a startup load gives an empty card map where memory had a card.
\<close>

theorem roundtrip_fails:
  "currentPrice infinite_price =
     Some \<lparr>amount = Number PosInf, currency = ''USD'',
            price_updatedAt = ''2024-05-01T10:00:00.000Z''\<rparr> \<and>
   currentPrice (startServer (CARDS_FILE (saveData (Written, Written) infinite_price))
                             (PRICE_FILE (saveData (Written, Written) infinite_price))) =
     Some \<lparr>amount = NullAmount, currency = ''USD'',
            price_updatedAt = ''2024-05-01T10:00:00.000Z''\<rparr> \<and>
   giftCards registered \<noteq> [] \<and>
   giftCards (startServer (CARDS_FILE (saveData (Failed_partial, Written) registered))
                          (PRICE_FILE (saveData (Failed_partial, Written) registered))) = []"
  by (simp add: infinite_price_def registered_eq api_admin_price_def body_get_def env0_def
      Let_def saveData_def write_file_def startServer_def loadData_def json_money_def)

text \<open>
  C9, as the code has it. For every state in which each stored amount, of the cards
  and of the global price, is a finite number or null: when both writes of the flush
  succeed, a startup load of the two files gives exactly the card map and the price
  record that were in memory.
\<close>

theorem roundtrip_of_representable_state:
  assumes "representable_state s"
  shows "giftCards (startServer (CARDS_FILE (saveData (Written, Written) s))
                                (PRICE_FILE (saveData (Written, Written) s))) = giftCards s \<and>
         currentPrice (startServer (CARDS_FILE (saveData (Written, Written) s))
                                   (PRICE_FILE (saveData (Written, Written) s))) = currentPrice s"
  using assms
  by (simp add: representable_state_def saveData_written startServer_def loadData_def Let_def
      json_cards_id json_price_id)

lemma representable_priced: "representable_state priced"
  by (simp add: priced_eq representable_state_def representable_card_def)

theorem roundtrip_of_representable_state_witness:
  "representable_state priced \<and>
   giftCards (startServer (CARDS_FILE (saveData (Written, Written) priced))
                          (PRICE_FILE (saveData (Written, Written) priced))) =
     [(''ABC123'', \<lparr>code = ''ABC123'', status = ''pending'',
          createdAt = ''2024-05-01T10:00:00.000Z'', updatedAt = None, price = None\<rparr>)] \<and>
   currentPrice (startServer (CARDS_FILE (saveData (Written, Written) priced))
                             (PRICE_FILE (saveData (Written, Written) priced))) =
     Some \<lparr>amount = Number (Fin 10), currency = ''EUR'',
            price_updatedAt = ''2024-05-01T10:00:00.000Z''\<rparr>"
  using roundtrip_of_representable_state [OF representable_priced] representable_priced
  by (simp add: priced_eq)

end
